theory Spec2Isabelle
  imports Main "HOL-Library.Sublist"
begin

section \<open>Byte strings, text and the release-branch pattern\<close>

text \<open>
  \<^verbatim>\<open>build_files/utils/make_update.py\<close> is a script: its module body runs top to bottom.
  A Python \<^verbatim>\<open>bytes\<close> value is a \<^typ>\<open>string\<close> (a list of 8-bit characters); a Python
  \<^verbatim>\<open>str\<close> is kept as the bytes of its UTF-8 encoding. The pattern of the script is ASCII
  and the byte \<open>0x0A\<close> occurs in UTF-8 only as the encoding of the newline, so matching
  the pattern on the encoding agrees with matching it on the code points.
\<close>

definition newline :: char where
  "newline = CHR 0x0A"

text \<open>\<^verbatim>\<open>bytes.strip()\<close> removes leading and trailing ASCII whitespace:
  space, tab, line feed, vertical tab, form feed, carriage return.\<close>

definition is_space :: "char \<Rightarrow> bool" where
  "is_space c = (c = CHR 0x20 \<or> c = CHR 0x09 \<or> c = CHR 0x0A \<or>
                 c = CHR 0x0B \<or> c = CHR 0x0C \<or> c = CHR 0x0D)"

definition strip :: "string \<Rightarrow> string" where
  "strip s = rev (dropWhile is_space (rev (dropWhile is_space s)))"

text \<open>\<^verbatim>\<open>bytes.decode('utf8')\<close> is strict: it raises \<^verbatim>\<open>UnicodeDecodeError\<close> on a byte
  sequence that is not well-formed UTF-8 (overlong forms, surrogates and code points above
  \<open>U+10FFFF\<close> included).\<close>

definition continuation :: "char \<Rightarrow> bool" where
  "continuation c = (0x80 \<le> (of_char c :: nat) \<and> (of_char c :: nat) \<le> 0xBF)"

definition second_of_three :: "nat \<Rightarrow> char \<Rightarrow> bool" where
  "second_of_three lead c =
     (let n = (of_char c :: nat) in
      if lead = 0xE0 then 0xA0 \<le> n \<and> n \<le> 0xBF
      else if lead = 0xED then 0x80 \<le> n \<and> n \<le> 0x9F
      else 0x80 \<le> n \<and> n \<le> 0xBF)"

definition second_of_four :: "nat \<Rightarrow> char \<Rightarrow> bool" where
  "second_of_four lead c =
     (let n = (of_char c :: nat) in
      if lead = 0xF0 then 0x90 \<le> n \<and> n \<le> 0xBF
      else if lead = 0xF4 then 0x80 \<le> n \<and> n \<le> 0x8F
      else 0x80 \<le> n \<and> n \<le> 0xBF)"

fun utf8_valid :: "string \<Rightarrow> bool" where
  "utf8_valid [] = True"
| "utf8_valid (a # bs) =
     (let lead = (of_char a :: nat) in
      if lead < 0x80 then utf8_valid bs
      else if 0xC2 \<le> lead \<and> lead \<le> 0xDF then
        (case bs of b # r \<Rightarrow> continuation b \<and> utf8_valid r | _ \<Rightarrow> False)
      else if 0xE0 \<le> lead \<and> lead \<le> 0xEF then
        (case bs of b # c # r \<Rightarrow>
           second_of_three lead b \<and> continuation c \<and> utf8_valid r | _ \<Rightarrow> False)
      else if 0xF0 \<le> lead \<and> lead \<le> 0xF4 then
        (case bs of b # c # d # r \<Rightarrow>
           second_of_four lead b \<and> continuation c \<and> continuation d \<and> utf8_valid r
         | _ \<Rightarrow> False)
      else False)"

definition decode_utf8 :: "string \<Rightarrow> string option" where
  "decode_utf8 bs = (if utf8_valid bs then Some bs else None)"

text \<open>
  \<^verbatim>\<open>re.search("^blender-v(.*)-release$", branch)\<close>, then \<^verbatim>\<open>group(1)\<close>. Without
  \<^verbatim>\<open>re.MULTILINE\<close> the anchor \<^verbatim>\<open>^\<close> holds at offset 0 only, so the search can succeed
  from the first offset only. \<^verbatim>\<open>.\<close> matches every character but the newline; \<^verbatim>\<open>*\<close> is
  greedy: the longest run is tried first and shortened one character at a time until
  the rest of the pattern matches. \<^verbatim>\<open>$\<close> holds at the end of the string and just
  before a newline that is the last character.
\<close>

definition match_literal :: "string \<Rightarrow> string \<Rightarrow> string option" where
  "match_literal lit s =
     (if take (length lit) s = lit then Some (drop (length lit) s) else None)"

definition at_end :: "string \<Rightarrow> bool" where
  "at_end s = (s = [] \<or> s = [newline])"

fun dot_star :: "(string \<Rightarrow> bool) \<Rightarrow> string \<Rightarrow> nat \<Rightarrow> string option" where
  "dot_star rest_matches s 0 = (if rest_matches s then Some [] else None)"
| "dot_star rest_matches s (Suc n) =
     (if rest_matches (drop (Suc n) s) then Some (take (Suc n) s)
      else dot_star rest_matches s n)"

definition release_suffix :: "string \<Rightarrow> bool" where
  "release_suffix s =
     (case match_literal ''-release'' s of None \<Rightarrow> False | Some e \<Rightarrow> at_end e)"

definition re_search_release :: "string \<Rightarrow> string option" where
  "re_search_release branch =
     (case match_literal ''blender-v'' branch of
        None \<Rightarrow> None
      | Some rest \<Rightarrow>
          dot_star release_suffix rest (length (takeWhile (\<lambda>c. c \<noteq> newline) rest)))"

text \<open>The language of the pattern, stated directly: the branch is the prefix, a version
  without a newline, the suffix, and possibly one final newline.\<close>

definition matches_release_pattern :: "string \<Rightarrow> string \<Rightarrow> bool" where
  "matches_release_pattern branch version =
     (newline \<notin> set version \<and>
      (branch = ''blender-v'' @ version @ ''-release'' \<or>
       branch = ''blender-v'' @ version @ ''-release'' @ [newline]))"

section \<open>The world outside the script\<close>

text \<open>
  The script reads the search path and the file system and starts processes that change
  both. The world is a value of an arbitrary type \<open>'w\<close>; a \<open>system\<close> gives what the
  standard library returns in a world:
  \<^item> \<open>which w cmd\<close>: \<^verbatim>\<open>shutil.which(cmd) is not None\<close>;
  \<^item> \<open>spawn w cmd\<close>: running the argument list \<open>cmd\<close> to its end gives its exit status,
    its standard output and the world it leaves;
  \<^item> \<open>path_kind w p\<close>: what the path names, so that \<^verbatim>\<open>os.path.exists\<close> is
    \<open>path_kind w p \<noteq> None\<close> and \<^verbatim>\<open>os.path.isdir\<close> is \<open>path_kind w p = Some Directory\<close>;
  \<^item> \<open>listdir w p\<close>: \<^verbatim>\<open>os.listdir(p)\<close>, \<open>None\<close> when it raises \<^verbatim>\<open>OSError\<close>;
  \<^item> \<open>path_join\<close>: \<^verbatim>\<open>os.path.join\<close> of the running interpreter;
  \<^item> \<open>platform\<close>: \<^verbatim>\<open>sys.platform\<close>.
\<close>

text \<open>
  What the model leaves to its caller: the arguments are those \<^verbatim>\<open>argparse\<close> accepted (a usage
  error ends the program before line 32); a command that \<^verbatim>\<open>shutil.which\<close> found can be
  started; standard output takes every text \<^verbatim>\<open>print\<close> is given.
\<close>

datatype file_kind = Directory | Other_File

record 'w system =
  which :: "'w \<Rightarrow> string \<Rightarrow> bool"
  spawn :: "'w \<Rightarrow> string list \<Rightarrow> (int \<times> string) \<times> 'w"
  path_kind :: "'w \<Rightarrow> string \<Rightarrow> file_kind option"
  listdir :: "'w \<Rightarrow> string \<Rightarrow> string list option"
  path_join :: "string \<Rightarrow> string \<Rightarrow> string"
  platform :: string

text \<open>The namespace returned by \<^verbatim>\<open>parse_arguments()\<close>; the defaults of the two commands
  are \<^verbatim>\<open>"svn"\<close> and \<^verbatim>\<open>"git"\<close>.\<close>

record args =
  only_code :: bool
  svn_command :: string
  git_command :: string

definition default_args :: args where
  "default_args = \<lparr>only_code = False, svn_command = ''svn'', git_command = ''git''\<rparr>"

text \<open>What a run does that can be seen from outside, in order: a line printed by
  \<^verbatim>\<open>print\<close>, a text written to standard error, a process run with its exit status.\<close>

datatype event = Stdout string | Stderr string | Run "string list" int

text \<open>How the script stops before its last line: \<^verbatim>\<open>sys.exit(n)\<close>, the invocation helper
  giving up on a failed command, or an exception nobody catches.\<close>

datatype halt = SysExit int | CommandFailed "string list" int | Uncaught string

fun exit_status :: "halt \<Rightarrow> int" where
  "exit_status (SysExit n) = n"
| "exit_status (CommandFailed cmd rc) = 1"
| "exit_status (Uncaught exn) = 1"

record 'w pstate =
  world :: 'w
  events :: "event list"

type_synonym ('w, 'a) prog = "'w pstate \<Rightarrow> (halt + 'a) \<times> 'w pstate"

definition ok :: "'a \<Rightarrow> ('w, 'a) prog" where
  "ok a s = (Inr a, s)"

definition halt_with :: "halt \<Rightarrow> ('w, 'a) prog" where
  "halt_with h s = (Inl h, s)"

definition seq :: "('w, 'a) prog \<Rightarrow> ('a \<Rightarrow> ('w, 'b) prog) \<Rightarrow> ('w, 'b) prog" where
  "seq m f s = (case m s of (Inl h, s') \<Rightarrow> (Inl h, s') | (Inr a, s') \<Rightarrow> f a s')"

definition emit :: "event \<Rightarrow> ('w, unit) prog" where
  "emit e s = (Inr (), s\<lparr>events := events s @ [e]\<rparr>)"

definition py_print :: "string \<Rightarrow> ('w, unit) prog" where
  "py_print text = emit (Stdout text)"

definition stderr_write :: "string \<Rightarrow> ('w, unit) prog" where
  "stderr_write text = emit (Stderr text)"

definition sys_exit :: "int \<Rightarrow> ('w, 'a) prog" where
  "sys_exit n = halt_with (SysExit n)"

definition shutil_which :: "'w system \<Rightarrow> string \<Rightarrow> ('w, bool) prog" where
  "shutil_which sys cmd s = (Inr (which sys (world s) cmd), s)"

definition os_path_exists :: "'w system \<Rightarrow> string \<Rightarrow> ('w, bool) prog" where
  "os_path_exists sys p s = (Inr (path_kind sys (world s) p \<noteq> None), s)"

definition os_path_isdir :: "'w system \<Rightarrow> string \<Rightarrow> ('w, bool) prog" where
  "os_path_isdir sys p s = (Inr (path_kind sys (world s) p = Some Directory), s)"

definition os_listdir :: "'w system \<Rightarrow> string \<Rightarrow> ('w, string list) prog" where
  "os_listdir sys p s =
     (case listdir sys (world s) p of
        None \<Rightarrow> (Inl (Uncaught ''OSError''), s)
      | Some names \<Rightarrow> (Inr names, s))"

definition run_process :: "'w system \<Rightarrow> string list \<Rightarrow> ('w, int \<times> string) prog" where
  "run_process sys cmd s =
     (case spawn sys (world s) cmd of
        ((rc, out), w') \<Rightarrow>
          (Inr (rc, out), s\<lparr>world := w', events := events s @ [Run cmd rc]\<rparr>))"

text \<open>\<^verbatim>\<open>subprocess.check_output\<close> returns the standard output of the command, or raises
  \<^verbatim>\<open>CalledProcessError\<close> (here \<open>None\<close>) when its exit status is not zero.\<close>

definition check_output :: "'w system \<Rightarrow> string list \<Rightarrow> ('w, string option) prog" where
  "check_output sys cmd =
     seq (run_process sys cmd) (\<lambda>(rc, out). ok (if rc = 0 then Some out else None))"

text \<open>
  Modelled from the spec: \<^verbatim>\<open>call\<close> is imported from \<^verbatim>\<open>make_utils\<close>, a module of the
  repository that is not among the sources at hand. The specification describes this
  invocation helper: it executes an external command with the given argument list,
  streams its output, and aborts the whole program on a non-zero exit status, the exit
  code of the program then being 1.
\<close>

definition call :: "'w system \<Rightarrow> string list \<Rightarrow> ('w, unit) prog" where
  "call sys cmd =
     seq (run_process sys cmd)
       (\<lambda>(rc, out). if rc \<noteq> 0 then halt_with (CommandFailed cmd rc) else ok ())"

section \<open>The script\<close>

text \<open>Lines 32 to 38: both executables are looked up, the primary client first.\<close>

definition check_commands :: "'w system \<Rightarrow> args \<Rightarrow> ('w, unit) prog" where
  "check_commands sys a =
     seq (shutil_which sys (git_command a)) (\<lambda>git_found.
       if \<not> git_found then
         seq (stderr_write (''git not found, can't update code'' @ [newline]))
           (\<lambda>_. sys_exit 1)
       else
         seq (shutil_which sys (svn_command a)) (\<lambda>svn_found.
           if \<not> svn_found then
             seq (stderr_write (''svn not found, can't update libraries'' @ [newline]))
               (\<lambda>_. sys_exit 1)
           else ok ()))"

definition print_stage :: "string \<Rightarrow> ('w, unit) prog" where
  "print_stage text =
     seq (py_print '''') (\<lambda>_. seq (py_print text) (\<lambda>_. py_print ''''))"

text \<open>Lines 46 to 52: the current branch, stripped and decoded.\<close>

definition rev_parse :: "args \<Rightarrow> string list" where
  "rev_parse a = [git_command a, ''rev-parse'', ''--abbrev-ref'', ''HEAD'']"

definition get_branch :: "'w system \<Rightarrow> args \<Rightarrow> ('w, string) prog" where
  "get_branch sys a =
     seq (check_output sys (rev_parse a)) (\<lambda>r.
       case r of
         None \<Rightarrow>
           seq (stderr_write (''Failed to get Blender git branch'' @ [newline]))
             (\<lambda>_. sys_exit 1)
       | Some branch \<Rightarrow>
           (case decode_utf8 (strip branch) of
              None \<Rightarrow> halt_with (Uncaught ''UnicodeDecodeError'')
            | Some text \<Rightarrow> ok text))"

text \<open>Lines 53 to 56. \<^verbatim>\<open>release_version\<close> is \<^verbatim>\<open>None\<close> or, after a match, the string of
  group 1; a match object is always true, so the line is printed on every match.\<close>

definition detect_release :: "string \<Rightarrow> ('w, string option) prog" where
  "detect_release branch =
     (case re_search_release branch of
        None \<Rightarrow> ok None
      | Some version \<Rightarrow>
          seq (py_print (''Using Release Blender v'' @ version)) (\<lambda>_. ok (Some version)))"

text \<open>The truth value Python gives \<^verbatim>\<open>release_version\<close> in \<^verbatim>\<open>if release_version\<close>:
  \<^verbatim>\<open>None\<close> and the empty string are false.\<close>

fun truthy :: "string option \<Rightarrow> bool" where
  "truthy None = False"
| "truthy (Some v) = (v \<noteq> [])"

text \<open>Lines 62 to 66.\<close>

fun svn_branch :: "string option \<Rightarrow> string" where
  "svn_branch None = ''trunk''"
| "svn_branch (Some v) =
     (if v \<noteq> [] then ''tags/blender-'' @ v @ ''-release'' else ''trunk'')"

definition svn_url :: "string option \<Rightarrow> string" where
  "svn_url release_version =
     ''https://svn.blender.org/svnroot/bf-blender/'' @ svn_branch release_version @ ''/lib/''"

text \<open>Lines 69 to 78.\<close>

definition lib_platform :: "string \<Rightarrow> string option" where
  "lib_platform p =
     (if p = ''darwin'' then Some ''darwin''
      else if p = ''win32'' then Some ''win64_vc14''
      else None)"

definition lib_dirpath :: "'w system \<Rightarrow> string" where
  "lib_dirpath sys = path_join sys ''..'' ''lib''"

text \<open>Lines 80 to 87: the first checkout of the platform's libraries.\<close>

definition checkout_libraries :: "'w system \<Rightarrow> args \<Rightarrow> string option \<Rightarrow> ('w, unit) prog" where
  "checkout_libraries sys a release_version =
     (case lib_platform (platform sys) of
        None \<Rightarrow> ok ()
      | Some lp \<Rightarrow>
          (let lib_platform_dirpath = path_join sys (lib_dirpath sys) lp in
           seq (os_path_exists sys lib_platform_dirpath) (\<lambda>there.
             if \<not> there then
               seq (print_stage ''Checking out Precompiled Libraries'') (\<lambda>_.
                 call sys [svn_command a, ''checkout'', svn_url release_version @ lp,
                           lib_platform_dirpath])
             else ok ())))"

text \<open>Lines 94 to 105, the body of the loop for one entry. The three tests of the
  condition only read the file system, so their short-circuit order cannot be seen.\<close>

definition update_dir :: "'w system \<Rightarrow> args \<Rightarrow> string option \<Rightarrow> string \<Rightarrow> ('w, unit) prog" where
  "update_dir sys a release_version dirname =
     (if dirname = ''.svn'' then ok ()
      else
        (let dirpath = path_join sys (lib_dirpath sys) dirname;
             svn_dirpath = path_join sys dirpath ''.svn'';
             svn_root_dirpath = path_join sys (lib_dirpath sys) ''.svn''
         in
         seq (os_path_isdir sys dirpath) (\<lambda>is_dir.
         seq (os_path_exists sys svn_dirpath) (\<lambda>own_svn.
         seq (os_path_exists sys svn_root_dirpath) (\<lambda>root_svn.
           if is_dir \<and> (own_svn \<or> root_svn) then
             seq (call sys [svn_command a, ''cleanup'', dirpath]) (\<lambda>_.
             seq (call sys [svn_command a, ''switch'',
                            svn_url release_version @ dirname, dirpath]) (\<lambda>_.
             call sys [svn_command a, ''update'', dirpath]))
           else ok ())))))"

fun update_dirs ::
  "'w system \<Rightarrow> args \<Rightarrow> string option \<Rightarrow> string list \<Rightarrow> ('w, unit) prog" where
  "update_dirs sys a release_version [] = ok ()"
| "update_dirs sys a release_version (dirname # rest) =
     seq (update_dir sys a release_version dirname)
       (\<lambda>_. update_dirs sys a release_version rest)"

text \<open>Lines 89 to 105: the listing is taken once, before the loop.\<close>

definition update_libraries :: "'w system \<Rightarrow> args \<Rightarrow> string option \<Rightarrow> ('w, unit) prog" where
  "update_libraries sys a release_version =
     seq (print_stage ''Updating Precompiled Libraries and Tests'') (\<lambda>_.
     seq (os_path_isdir sys (lib_dirpath sys)) (\<lambda>is_dir.
       if is_dir then
         seq (os_listdir sys (lib_dirpath sys)) (update_dirs sys a release_version)
       else ok ()))"

text \<open>Lines 107 to 118.\<close>

definition git_pull :: "args \<Rightarrow> string list" where
  "git_pull a = [git_command a, ''pull'', ''--rebase'']"

definition git_submodule_update :: "args \<Rightarrow> string list" where
  "git_submodule_update a = [git_command a, ''submodule'', ''update'', ''--init'', ''--recursive'']"

definition git_foreach_checkout :: "args \<Rightarrow> string list" where
  "git_foreach_checkout a =
     [git_command a, ''submodule'', ''foreach'', ''git'', ''checkout'', ''master'']"

definition git_foreach_pull :: "args \<Rightarrow> string list" where
  "git_foreach_pull a =
     [git_command a, ''submodule'', ''foreach'', ''git'', ''pull'', ''--rebase'', ''origin'',
      ''master'']"

definition update_repository :: "'w system \<Rightarrow> args \<Rightarrow> string option \<Rightarrow> ('w, unit) prog" where
  "update_repository sys a release_version =
     seq (print_stage ''Updating Blender Git Repository and Submodules'') (\<lambda>_.
     seq (call sys (git_pull a)) (\<lambda>_.
     seq (call sys (git_submodule_update a)) (\<lambda>_.
       if \<not> truthy release_version then
         seq (call sys (git_foreach_checkout a)) (\<lambda>_. call sys (git_foreach_pull a))
       else ok ())))"

text \<open>The module body from line 32 on, for the parsed arguments \<open>a\<close>.\<close>

definition after_detection :: "'w system \<Rightarrow> args \<Rightarrow> string option \<Rightarrow> ('w, unit) prog" where
  "after_detection sys a release_version =
     seq (if \<not> only_code a then
            seq (checkout_libraries sys a release_version)
              (\<lambda>_. update_libraries sys a release_version)
          else ok ())
       (\<lambda>_. update_repository sys a release_version)"

definition make_update :: "'w system \<Rightarrow> args \<Rightarrow> ('w, unit) prog" where
  "make_update sys a =
     seq (check_commands sys a) (\<lambda>_.
     seq (get_branch sys a) (\<lambda>branch.
     seq (detect_release branch) (after_detection sys a)))"

definition run :: "'w system \<Rightarrow> args \<Rightarrow> 'w \<Rightarrow> (halt + unit) \<times> 'w pstate" where
  "run sys a w = make_update sys a \<lparr>world = w, events = []\<rparr>"

fun exit_code :: "halt + unit \<Rightarrow> int" where
  "exit_code (Inl h) = exit_status h"
| "exit_code (Inr u) = 0"

text \<open>Before line 32 the module imports what it uses (lines 9 to 16). The import of
  \<^verbatim>\<open>make_utils\<close> at line 16 runs that module of the repository and lets the interpreter
  write its bytecode cache beside it, so the world the script starts to work in is the
  world the import has left: \<open>import_make_utils\<close> gives it. The module body is the import
  followed by the lines from 32 on.\<close>

definition module_body ::
  "'w system \<Rightarrow> ('w \<Rightarrow> 'w) \<Rightarrow> args \<Rightarrow> 'w \<Rightarrow> (halt + unit) \<times> 'w pstate" where
  "module_body sys import_make_utils a w = run sys a (import_make_utils w)"

section \<open>A small world to run the script in\<close>

text \<open>
  A concrete system, for evaluating whole runs: the world is a file system, a list of
  paths with their kinds; a checkout that succeeds creates its target directory and the
  metadata directory in it, every other command leaves the files alone;
  \<^verbatim>\<open>git rev-parse --abbrev-ref HEAD\<close> prints \<open>branch\<close>; \<open>status\<close> gives each command its
  exit status; \<open>posix_join\<close> is \<^verbatim>\<open>posixpath.join\<close> on two components.
\<close>

type_synonym demo_world = "(string \<times> file_kind) list"

definition posix_join :: "string \<Rightarrow> string \<Rightarrow> string" where
  "posix_join a b =
     (if take 1 b = ''/'' then b
      else if a = [] \<or> last a = CHR ''/'' then a @ b
      else a @ ''/'' @ b)"

definition children :: "demo_world \<Rightarrow> string \<Rightarrow> string list" where
  "children w p =
     map (\<lambda>(q, k). drop (Suc (length p)) q)
       (filter (\<lambda>(q, k). take (Suc (length p)) q = p @ ''/'' \<and>
                          CHR ''/'' \<notin> set (drop (Suc (length p)) q)) w)"

definition demo_spawn ::
  "string \<Rightarrow> (string list \<Rightarrow> int) \<Rightarrow> demo_world \<Rightarrow> string list \<Rightarrow> (int \<times> string) \<times> demo_world" where
  "demo_spawn branch status w cmd =
     ((status cmd, if drop 1 cmd = [''rev-parse'', ''--abbrev-ref'', ''HEAD''] then branch else []),
      if status cmd = 0 \<and> take 1 (drop 1 cmd) = [''checkout'']
      then concat (map (\<lambda>p. [(p, Directory), (posix_join p ''.svn'', Directory)]) (drop 3 cmd)) @ w
      else w)"

definition demo_system ::
  "string list \<Rightarrow> string \<Rightarrow> string \<Rightarrow> (string list \<Rightarrow> int) \<Rightarrow> demo_world system" where
  "demo_system tools plat branch status =
     \<lparr>which = (\<lambda>w cmd. cmd \<in> set tools),
      spawn = demo_spawn branch status,
      path_kind = map_of,
      listdir = (\<lambda>w p. if map_of w p = Some Directory then Some (children w p) else None),
      path_join = posix_join,
      platform = plat\<rparr>"

definition all_succeed :: "string list \<Rightarrow> int" where
  "all_succeed cmd = 0"

definition linux_world :: demo_world where
  "linux_world =
     [(''../lib'', Directory), (''../lib/tests'', Directory), (''../lib/tests/.svn'', Directory),
      (''../lib/notes'', Directory), (''../lib/README'', Other_File)]"

section \<open>The library update as the specification words it\<close>

text \<open>
  The specification describes the loop of lines 93 to 105 entry by entry: an entry is
  updated when it is not the metadata directory itself, is a directory, and either has an
  entry \<^verbatim>\<open>.svn\<close> of its own or the libraries root has one (\<^verbatim>\<open>os.path.exists\<close>: a file of
  any kind counts); an updated entry gets three operations, cleanup, switch and update, in
  this order; every other entry gets none. \<open>expected_operations\<close> lists the operations for
  a listing, each entry judged in the world that the operations before it have left.
\<close>

definition entry_is_updated :: "'w system \<Rightarrow> 'w \<Rightarrow> string \<Rightarrow> bool" where
  "entry_is_updated sys w dirname =
     (dirname \<noteq> ''.svn'' \<and>
      path_kind sys w (path_join sys (lib_dirpath sys) dirname) = Some Directory \<and>
      (path_kind sys w (path_join sys (path_join sys (lib_dirpath sys) dirname) ''.svn'') \<noteq> None \<or>
       path_kind sys w (path_join sys (lib_dirpath sys) ''.svn'') \<noteq> None))"

definition three_operations ::
  "'w system \<Rightarrow> args \<Rightarrow> string option \<Rightarrow> string \<Rightarrow> string list list" where
  "three_operations sys a release_version dirname =
     [[svn_command a, ''cleanup'', path_join sys (lib_dirpath sys) dirname],
      [svn_command a, ''switch'', svn_url release_version @ dirname,
       path_join sys (lib_dirpath sys) dirname],
      [svn_command a, ''update'', path_join sys (lib_dirpath sys) dirname]]"

definition world_after :: "'w system \<Rightarrow> 'w \<Rightarrow> string list list \<Rightarrow> 'w" where
  "world_after sys w cmds = fold (\<lambda>cmd w'. snd (spawn sys w' cmd)) cmds w"

fun expected_operations ::
  "'w system \<Rightarrow> args \<Rightarrow> string option \<Rightarrow> 'w \<Rightarrow> string list \<Rightarrow> string list list" where
  "expected_operations sys a release_version w [] = []"
| "expected_operations sys a release_version w (dirname # rest) =
     (if entry_is_updated sys w dirname then
        three_operations sys a release_version dirname @
        expected_operations sys a release_version
          (world_after sys w (three_operations sys a release_version dirname)) rest
      else expected_operations sys a release_version w rest)"

section \<open>Properties of the events of a run\<close>

text \<open>
  The artifact client is asked for one of four operations, named by the first argument
  after the client; an event is a failure when it is a process that exited with a status
  other than zero. \<open>stops_at_failure\<close> says of a result and the events that led to it:
  a run that goes on has seen no failure; a run that halts has a non-zero exit status,
  and the first failure, if there is one, is followed by writes to standard error only.
\<close>

definition artifact_verbs :: "string list" where
  "artifact_verbs = [''checkout'', ''cleanup'', ''switch'', ''update'']"

fun is_artifact_command :: "string list \<Rightarrow> bool" where
  "is_artifact_command (client # verb # arguments) = (verb \<in> set artifact_verbs)"
| "is_artifact_command cmd = False"

fun artifact_event :: "event \<Rightarrow> bool" where
  "artifact_event (Run cmd rc) = is_artifact_command cmd"
| "artifact_event e = False"

definition new_events_satisfy :: "(event \<Rightarrow> bool) \<Rightarrow> ('w, 'a) prog \<Rightarrow> bool" where
  "new_events_satisfy P m =
     (\<forall>s. \<exists>new. events (snd (m s)) = events s @ new \<and> list_all P new)"

fun failed :: "event \<Rightarrow> bool" where
  "failed (Run cmd rc) = (rc \<noteq> 0)"
| "failed e = False"

fun on_stderr :: "event \<Rightarrow> bool" where
  "on_stderr (Stderr text) = True"
| "on_stderr e = False"

definition stops_at_failure :: "halt + 'a \<Rightarrow> event list \<Rightarrow> bool" where
  "stops_at_failure r new =
     (case r of
        Inr x \<Rightarrow> \<not> list_ex failed new
      | Inl h \<Rightarrow>
          exit_status h \<noteq> 0 \<and>
          (\<exists>before after. new = before @ after \<and> \<not> list_ex failed before \<and>
             (after = [] \<or> (failed (hd after) \<and> list_all on_stderr (tl after)))))"

definition disciplined :: "('w, 'a) prog \<Rightarrow> bool" where
  "disciplined m =
     (\<forall>s. \<exists>new. events (snd (m s)) = events s @ new \<and> stops_at_failure (fst (m s)) new)"

text \<open>An artifact operation that takes a URL, a checkout or a switch, uses the trunk when
  its URL begins with the trunk libraries URL; a command is forced when it carries one of
  git's force options.\<close>

definition trunk_lib_url :: string where
  "trunk_lib_url = ''https://svn.blender.org/svnroot/bf-blender/trunk/lib/''"

fun uses_trunk :: "event \<Rightarrow> bool" where
  "uses_trunk (Run (client # verb # url # arguments) rc) =
     (if verb = ''checkout'' \<or> verb = ''switch'' then prefix trunk_lib_url url else True)"
| "uses_trunk e = True"

fun forces :: "event \<Rightarrow> bool" where
  "forces (Run cmd rc) = (''-f'' \<in> set cmd \<or> ''--force'' \<in> set cmd)"
| "forces e = False"

definition cache_written :: "demo_world \<Rightarrow> demo_world" where
  "cache_written w =
     w @ [(''build_files/utils/__pycache__'', Directory),
          (''build_files/utils/__pycache__/make_utils.cpython-311.pyc'', Other_File)]"

definition checkout_fails :: "string list \<Rightarrow> int" where
  "checkout_fails cmd = (if take 1 (drop 1 cmd) = [''checkout''] then 1 else 0)"

definition creating_the_root :: "demo_world system \<Rightarrow> demo_world system" where
  "creating_the_root sys =
     sys\<lparr>spawn := (\<lambda>w cmd.
       (fst (spawn sys w cmd),
        if fst (fst (spawn sys w cmd)) = 0 \<and> take 1 (drop 1 cmd) = [''checkout'']
        then snd (spawn sys w cmd) @ [(''../lib'', Directory)]
        else snd (spawn sys w cmd)))\<rparr>"

definition switch_fails :: "string list \<Rightarrow> int" where
  "switch_fails cmd = (if take 1 (drop 1 cmd) = [''switch''] then 1 else 0)"

definition svn_file_world :: demo_world where
  "svn_file_world =
     [(''../lib'', Directory), (''../lib/foo'', Directory), (''../lib/foo/.svn'', Other_File)]"

section \<open>The pattern\<close>

lemma match_literal_Some: "match_literal lit s = Some r \<longleftrightarrow> s = lit @ r"
proof
  assume "match_literal lit s = Some r"
  then have "take (length lit) s = lit" and "r = drop (length lit) s"
    by (auto simp: match_literal_def split: if_splits)
  then show "s = lit @ r" by (metis append_take_drop_id)
next
  assume "s = lit @ r"
  then show "match_literal lit s = Some r" by (simp add: match_literal_def)
qed

lemma match_literal_append [simp]: "match_literal lit (lit @ r) = Some r"
  by (simp add: match_literal_Some)

lemma dot_star_sound:
  "dot_star k s n = Some v \<Longrightarrow> \<exists>m\<le>n. v = take m s \<and> k (drop m s)"
proof (induction n)
  case 0
  then show ?case by (auto split: if_splits)
next
  case (Suc n)
  show ?case
  proof (cases "k (drop (Suc n) s)")
    case True
    with Suc.prems show ?thesis by auto
  next
    case False
    with Suc.prems have "dot_star k s n = Some v" by simp
    from Suc.IH [OF this] show ?thesis by (auto intro: le_SucI)
  qed
qed

lemma dot_star_greedy:
  "m \<le> n \<Longrightarrow> k (drop m s) \<Longrightarrow> (\<forall>j. m < j \<and> j \<le> n \<longrightarrow> \<not> k (drop j s)) \<Longrightarrow>
   dot_star k s n = Some (take m s)"
proof (induction n)
  case 0
  then show ?case by simp
next
  case (Suc n)
  show ?case
  proof (cases "m = Suc n")
    case True
    with Suc.prems show ?thesis by simp
  next
    case False
    with Suc.prems have le: "m \<le> n" by simp
    from False Suc.prems have "\<not> k (drop (Suc n) s)" by auto
    moreover have "dot_star k s n = Some (take m s)"
      using Suc.IH [OF le] Suc.prems by auto
    ultimately show ?thesis by simp
  qed
qed

lemma release_suffix_iff:
  "release_suffix s \<longleftrightarrow> s = ''-release'' \<or> s = ''-release'' @ [newline]"
proof
  assume "release_suffix s"
  then obtain e where "match_literal ''-release'' s = Some e" and "at_end e"
    by (auto simp: release_suffix_def split: option.splits)
  then show "s = ''-release'' \<or> s = ''-release'' @ [newline]"
    by (auto simp: match_literal_Some at_end_def)
next
  assume "s = ''-release'' \<or> s = ''-release'' @ [newline]"
  then show "release_suffix s"
    by (auto simp: release_suffix_def match_literal_def at_end_def)
qed

lemma take_of_takeWhile:
  "m \<le> length (takeWhile P xs) \<Longrightarrow> \<forall>x\<in>set (take m xs). P x"
proof (induction xs arbitrary: m)
  case Nil
  then show ?case by simp
next
  case (Cons x xs)
  then show ?case by (cases m) (auto split: if_splits)
qed

lemma re_search_release_sound:
  assumes "re_search_release b = Some v"
  shows "matches_release_pattern b v"
proof -
  from assms obtain rest where p: "b = ''blender-v'' @ rest"
    and d: "dot_star release_suffix rest
              (length (takeWhile (\<lambda>c. c \<noteq> newline) rest)) = Some v"
    by (auto simp: re_search_release_def match_literal_Some split: option.splits)
  from dot_star_sound [OF d] obtain m
    where m: "m \<le> length (takeWhile (\<lambda>c. c \<noteq> newline) rest)"
      and v: "v = take m rest" and k: "release_suffix (drop m rest)"
    by blast
  from take_of_takeWhile [OF m] v have nl: "newline \<notin> set v" by auto
  have "rest = take m rest @ drop m rest" by simp
  with p v have "b = ''blender-v'' @ v @ drop m rest" by simp
  with k nl show ?thesis
    unfolding matches_release_pattern_def release_suffix_iff by auto
qed

lemma release_suffix_short: "length s < 8 \<Longrightarrow> \<not> release_suffix s"
  by (auto simp: release_suffix_iff)

lemma re_search_release_complete:
  assumes "matches_release_pattern b v"
  shows "re_search_release b = Some v"
proof -
  from assms have nl: "newline \<notin> set v" by (simp add: matches_release_pattern_def)
  from assms obtain t where t: "t = [] \<or> t = [newline]"
    and b: "b = ''blender-v'' @ v @ ''-release'' @ t"
    by (auto simp: matches_release_pattern_def)
  let ?rest = "v @ ''-release'' @ t"
  have "takeWhile (\<lambda>c. c \<noteq> newline) ?rest
          = v @ takeWhile (\<lambda>c. c \<noteq> newline) (''-release'' @ t)"
    using nl by (intro takeWhile_append2) auto
  moreover have "takeWhile (\<lambda>c. c \<noteq> newline) (''-release'' @ t) = ''-release''"
    using t by (auto simp: newline_def)
  ultimately have n: "length (takeWhile (\<lambda>c. c \<noteq> newline) ?rest) = length v + 8"
    by simp
  have here: "release_suffix (drop (length v) ?rest)"
    using t by (auto simp: release_suffix_iff)
  have later: "\<not> release_suffix (drop j ?rest)" if "length v < j" for j
  proof -
    from that obtain i where j: "j = length v + Suc i"
      by (metis less_iff_Suc_add add_Suc_right)
    have "drop j ?rest = drop i (''release'' @ t)"
      by (simp add: j)
    moreover have "\<not> release_suffix (drop i (''release'' @ t))"
    proof (cases i)
      case 0
      then show ?thesis using t by (auto simp: release_suffix_iff)
    next
      case (Suc i')
      then have "length (drop i (''release'' @ t)) < 8" using t by auto
      then show ?thesis by (rule release_suffix_short)
    qed
    ultimately show ?thesis by simp
  qed
  have "dot_star release_suffix ?rest (length v + 8) = Some (take (length v) ?rest)"
    by (rule dot_star_greedy) (use here later in auto)
  then show ?thesis
    by (simp add: re_search_release_def b n del: append.simps)
qed

section \<open>The stages, as equations on the state\<close>

lemma seq_ok [simp]: "seq (ok a) f = f a"
  by (rule ext) (simp add: seq_def ok_def)

lemma seq_halt_with [simp]: "seq (halt_with h) f = halt_with h"
  by (rule ext) (simp add: seq_def halt_with_def)

lemma emit_seq: "seq (emit e) f s = f () (s\<lparr>events := events s @ [e]\<rparr>)"
  by (simp add: seq_def emit_def)

lemma print_stage_eq:
  "print_stage text s = (Inr (), s\<lparr>events := events s @ [Stdout [], Stdout text, Stdout []]\<rparr>)"
  by (simp add: print_stage_def py_print_def emit_seq) (simp add: emit_def)

lemma call_eq:
  "call sys cmd s =
     (if fst (fst (spawn sys (world s) cmd)) \<noteq> 0
      then Inl (CommandFailed cmd (fst (fst (spawn sys (world s) cmd)))) else Inr (),
      s\<lparr>world := snd (spawn sys (world s) cmd),
        events := events s @ [Run cmd (fst (fst (spawn sys (world s) cmd)))]\<rparr>)"
  by (simp add: call_def seq_def run_process_def halt_with_def ok_def split: prod.splits)

lemma check_commands_eq:
  "check_commands sys a s =
     (if \<not> which sys (world s) (git_command a) then
        (Inl (SysExit 1), s\<lparr>events := events s @ [Stderr (''git not found, can't update code'' @ [newline])]\<rparr>)
      else if \<not> which sys (world s) (svn_command a) then
        (Inl (SysExit 1), s\<lparr>events := events s @ [Stderr (''svn not found, can't update libraries'' @ [newline])]\<rparr>)
      else (Inr (), s))"
  by (simp add: check_commands_def seq_def shutil_which_def stderr_write_def emit_def
      sys_exit_def halt_with_def ok_def)

lemma detect_release_eq:
  "detect_release branch s =
     (Inr (re_search_release branch),
      s\<lparr>events := events s @
          (case re_search_release branch of None \<Rightarrow> []
           | Some v \<Rightarrow> [Stdout (''Using Release Blender v'' @ v)])\<rparr>)"
  by (simp add: detect_release_def ok_def py_print_def emit_seq split: option.splits)

lemma get_branch_eq:
  "get_branch sys a s =
     (let rc = fst (fst (spawn sys (world s) (rev_parse a)));
          out = snd (fst (spawn sys (world s) (rev_parse a)));
          s1 = s\<lparr>world := snd (spawn sys (world s) (rev_parse a)),
                 events := events s @ [Run (rev_parse a) rc]\<rparr>
      in if rc \<noteq> 0 then
           (Inl (SysExit 1),
            s1\<lparr>events := events s1 @ [Stderr (''Failed to get Blender git branch'' @ [newline])]\<rparr>)
         else (case decode_utf8 (strip out) of
                 None \<Rightarrow> (Inl (Uncaught ''UnicodeDecodeError''), s1)
               | Some text \<Rightarrow> (Inr text, s1)))"
  by (simp add: get_branch_def check_output_def seq_def run_process_def stderr_write_def
      emit_def sys_exit_def halt_with_def ok_def Let_def split: prod.splits option.splits)

text \<open>
  C1. For every branch name that matches the pattern with captured version \<open>version\<close>,
  the detector (lines 53 to 56) leaves exactly \<open>version\<close> in \<^verbatim>\<open>release_version\<close>, the
  release descriptor of a RELEASE checkout, and prints the line
  \<^verbatim>\<open>Using Release Blender v<version>\<close>; for every branch name that matches with no
  version it leaves \<^verbatim>\<open>None\<close>, the descriptor of a DEVELOPMENT checkout, and prints
  nothing.
\<close>

theorem detector_classifies_release:
  "(matches_release_pattern branch version \<longrightarrow>
      detect_release branch s =
        (Inr (Some version),
         s\<lparr>events := events s @ [Stdout (''Using Release Blender v'' @ version)]\<rparr>)) \<and>
   ((\<forall>v. \<not> matches_release_pattern branch v) \<longrightarrow> detect_release branch s = (Inr None, s))"
proof (intro conjI impI)
  assume "matches_release_pattern branch version"
  then have "re_search_release branch = Some version"
    by (rule re_search_release_complete)
  then show "detect_release branch s =
        (Inr (Some version),
         s\<lparr>events := events s @ [Stdout (''Using Release Blender v'' @ version)]\<rparr>)"
    by (simp add: detect_release_eq)
next
  assume no: "\<forall>v. \<not> matches_release_pattern branch v"
  have "re_search_release branch = None"
  proof (cases "re_search_release branch")
    case None
    then show ?thesis .
  next
    case (Some v)
    then have "matches_release_pattern branch v" by (rule re_search_release_sound)
    with no show ?thesis by simp
  qed
  then show "detect_release branch s = (Inr None, s)"
    by (simp add: detect_release_eq)
qed

lemma no_match_if_search_fails:
  "re_search_release b = None \<Longrightarrow> \<forall>v. \<not> matches_release_pattern b v"
  using re_search_release_complete by fastforce

theorem detector_classifies_release_witness:
  "detect_release ''blender-v4.1-release'' \<lparr>world = (), events = []\<rparr> =
     (Inr (Some ''4.1''), \<lparr>world = (), events = [Stdout ''Using Release Blender v4.1'']\<rparr>) \<and>
   detect_release ''main'' \<lparr>world = (), events = []\<rparr> =
     (Inr None, \<lparr>world = (), events = []\<rparr>) \<and>
   detect_release ''blender-v4.1-release-candidate'' \<lparr>world = (), events = []\<rparr> =
     (Inr None, \<lparr>world = (), events = []\<rparr>)"
proof -
  have m: "matches_release_pattern ''blender-v4.1-release'' ''4.1''"
    by (simp add: matches_release_pattern_def newline_def)
  have "re_search_release ''main'' = None" by code_simp
  then have n1: "\<forall>v. \<not> matches_release_pattern ''main'' v"
    by (rule no_match_if_search_fails)
  have "re_search_release ''blender-v4.1-release-candidate'' = None" by code_simp
  then have n2: "\<forall>v. \<not> matches_release_pattern ''blender-v4.1-release-candidate'' v"
    by (rule no_match_if_search_fails)
  show ?thesis
    using detector_classifies_release [of "''blender-v4.1-release''" "''4.1''" "\<lparr>world = (), events = []\<rparr>"]
      detector_classifies_release [of "''main''" "''4.1''" "\<lparr>world = (), events = []\<rparr>"]
      detector_classifies_release [of "''blender-v4.1-release-candidate''" "''4.1''" "\<lparr>world = (), events = []\<rparr>"]
      m n1 n2
    by simp
qed

section \<open>Whole runs\<close>

lemmas script_defs = run_def make_update_def after_detection_def update_repository_def
  update_libraries_def update_dir_def checkout_libraries_def lib_dirpath_def lib_platform_def
  svn_url_def get_branch_def rev_parse_def check_commands_def print_stage_def
  call_def check_output_def run_process_def os_listdir_def os_path_isdir_def os_path_exists_def
  shutil_which_def sys_exit_def stderr_write_def py_print_def emit_def seq_def halt_with_def ok_def
  git_pull_def git_submodule_update_def git_foreach_checkout_def git_foreach_pull_def
  decode_utf8_def strip_def is_space_def detect_release_def Let_def

lemmas demo_defs = demo_system_def demo_spawn_def posix_join_def children_def all_succeed_def
  linux_world_def default_args_def newline_def

lemma search_main: "re_search_release ''main'' = None"
  by code_simp

lemma search_empty_version: "re_search_release ''blender-v-release'' = Some []"
  by code_simp

lemma search_3_6: "re_search_release ''blender-v3.6-release'' = Some ''3.6''"
  by code_simp

text \<open>
  C5, as the code has it. If the primary client named by \<^verbatim>\<open>--git-command\<close> is not on the
  search path, the module writes the fixed text \<^verbatim>\<open>git not found, can't update code\<close> to
  standard error and exits with status 1; if it is on the path and the artifact client
  named by \<^verbatim>\<open>--svn-command\<close> is not, the module writes the fixed text
  \<^verbatim>\<open>svn not found, can't update libraries\<close> and exits with status 1. In both cases that
  text is all the script does: it starts no process, and the world it ends in is the one
  the import of line 16 left, bytecode cache included.
\<close>

theorem missing_command_is_fatal:
  "(\<not> which sys (import_make_utils w) (git_command a) \<longrightarrow>
      module_body sys import_make_utils a w =
        (Inl (SysExit 1),
         \<lparr>world = import_make_utils w,
           events = [Stderr (''git not found, can't update code'' @ [newline])]\<rparr>)) \<and>
   (which sys (import_make_utils w) (git_command a) \<and>
    \<not> which sys (import_make_utils w) (svn_command a) \<longrightarrow>
      module_body sys import_make_utils a w =
        (Inl (SysExit 1),
         \<lparr>world = import_make_utils w,
           events = [Stderr (''svn not found, can't update libraries'' @ [newline])]\<rparr>))"
  by (simp add: module_body_def run_def make_update_def seq_def check_commands_eq)

theorem missing_command_is_fatal_witness:
  "module_body (demo_system [] ''linux'' [] all_succeed) cache_written default_args linux_world =
     (Inl (SysExit 1),
      \<lparr>world = cache_written linux_world,
        events = [Stderr (''git not found, can't update code'' @ [newline])]\<rparr>) \<and>
   module_body (demo_system [''git''] ''linux'' [] all_succeed) cache_written default_args
     linux_world =
     (Inl (SysExit 1),
      \<lparr>world = cache_written linux_world,
        events = [Stderr (''svn not found, can't update libraries'' @ [newline])]\<rparr>)"
  using missing_command_is_fatal [of "demo_system [] ''linux'' [] all_succeed" cache_written
      linux_world default_args]
    missing_command_is_fatal [of "demo_system [''git''] ''linux'' [] all_succeed" cache_written
      linux_world default_args]
  by (simp add: demo_system_def default_args_def)

text \<open>
  C5 as stated fails: with \<^verbatim>\<open>--git-command hg\<close> and neither client installed the message
  names \<^verbatim>\<open>git\<close>, not \<^verbatim>\<open>hg\<close>, and nothing is said about the missing artifact client; with
  \<^verbatim>\<open>--svn-command svnlite\<close> missing the message names \<^verbatim>\<open>svn\<close>, not \<^verbatim>\<open>svnlite\<close>.
\<close>

theorem message_names_fixed_tool_counterexample:
  "run (demo_system [] ''linux'' [] all_succeed)
       \<lparr>only_code = False, svn_command = ''svn'', git_command = ''hg''\<rparr> linux_world =
     (Inl (SysExit 1),
      \<lparr>world = linux_world, events = [Stderr (''git not found, can't update code'' @ [newline])]\<rparr>) \<and>
   run (demo_system [''git''] ''linux'' [] all_succeed)
       \<lparr>only_code = False, svn_command = ''svnlite'', git_command = ''git''\<rparr> linux_world =
     (Inl (SysExit 1),
      \<lparr>world = linux_world,
        events = [Stderr (''svn not found, can't update libraries'' @ [newline])]\<rparr>)"
  by (simp add: run_def make_update_def seq_def check_commands_eq demo_system_def)

text \<open>
  C6. In every run, whatever \<^verbatim>\<open>--only-code\<close> says (the arguments \<open>a\<close> are arbitrary), a
  world without the artifact client ends the run with exit status 1 before any process
  is started: the run writes one message to standard error and leaves the world as it
  was; when the primary client is there, the message is the one about \<^verbatim>\<open>svn\<close>.
\<close>

theorem svn_check_is_unconditional:
  "\<not> which sys w (svn_command a) \<Longrightarrow>
     exit_code (fst (run sys a w)) = 1 \<and>
     world (snd (run sys a w)) = w \<and>
     (\<exists>message. events (snd (run sys a w)) = [Stderr message]) \<and>
     (which sys w (git_command a) \<longrightarrow>
        events (snd (run sys a w)) =
          [Stderr (''svn not found, can't update libraries'' @ [newline])])"
  by (simp add: run_def make_update_def seq_def check_commands_eq)

theorem svn_check_is_unconditional_witness:
  "exit_code (fst (run (demo_system [''git''] ''linux'' (''main'' @ [newline]) all_succeed)
                     \<lparr>only_code = True, svn_command = ''svn'', git_command = ''git''\<rparr> [])) = 1 \<and>
   events (snd (run (demo_system [''git''] ''linux'' (''main'' @ [newline]) all_succeed)
                     \<lparr>only_code = True, svn_command = ''svn'', git_command = ''git''\<rparr> [])) =
     [Stderr (''svn not found, can't update libraries'' @ [newline])]"
  using svn_check_is_unconditional [of "demo_system [''git''] ''linux'' (''main'' @ [newline]) all_succeed"
      "[]" "\<lparr>only_code = True, svn_command = ''svn'', git_command = ''git''\<rparr>"]
  by (simp add: demo_system_def)

lemma svn_url_empty_version: "svn_url (Some []) = svn_url None"
  by (simp add: svn_url_def)

lemma update_dirs_empty_version:
  "update_dirs sys a (Some []) = update_dirs sys a None"
proof
  fix names
  show "update_dirs sys a (Some []) names = update_dirs sys a None names"
    by (induction names) (simp_all add: update_dir_def svn_url_empty_version cong: if_cong)
qed

lemma after_detection_empty_version:
  "after_detection sys a (Some []) = after_detection sys a None"
proof -
  have "checkout_libraries sys a (Some []) = checkout_libraries sys a None"
    by (simp add: checkout_libraries_def svn_url_empty_version cong: if_cong option.case_cong)
  moreover have "update_libraries sys a (Some []) = update_libraries sys a None"
    by (simp add: update_libraries_def update_dirs_empty_version cong: if_cong)
  moreover have "update_repository sys a (Some []) = update_repository sys a None"
    by (simp add: update_repository_def)
  ultimately show ?thesis
    by (simp add: after_detection_def)
qed

text \<open>
  C8 at the branch \<^verbatim>\<open>blender-v-release\<close>, which matches the pattern with the empty
  version: the run announces a release and then checks out and switches the libraries
  to \<^verbatim>\<open>trunk/lib/\<close>, not to \<^verbatim>\<open>tags/blender--release/lib/\<close>.
\<close>

theorem empty_version_gets_trunk_libraries:
  "run (demo_system [''git'', ''svn''] ''darwin'' (''blender-v-release'' @ [newline]) all_succeed)
       default_args [(''../lib'', Directory)] =
   (Inr (),
    \<lparr>world = [(''../lib/darwin'', Directory), (''../lib/darwin/.svn'', Directory),
              (''../lib'', Directory)],
      events =
       [Run [''git'', ''rev-parse'', ''--abbrev-ref'', ''HEAD''] 0,
        Stdout ''Using Release Blender v'',
        Stdout [], Stdout ''Checking out Precompiled Libraries'', Stdout [],
        Run [''svn'', ''checkout'',
             ''https://svn.blender.org/svnroot/bf-blender/trunk/lib/darwin'',
             ''../lib/darwin''] 0,
        Stdout [], Stdout ''Updating Precompiled Libraries and Tests'', Stdout [],
        Run [''svn'', ''cleanup'', ''../lib/darwin''] 0,
        Run [''svn'', ''switch'',
             ''https://svn.blender.org/svnroot/bf-blender/trunk/lib/darwin'',
             ''../lib/darwin''] 0,
        Run [''svn'', ''update'', ''../lib/darwin''] 0,
        Stdout [], Stdout ''Updating Blender Git Repository and Submodules'', Stdout [],
        Run [''git'', ''pull'', ''--rebase''] 0,
        Run [''git'', ''submodule'', ''update'', ''--init'', ''--recursive''] 0,
        Run [''git'', ''submodule'', ''foreach'', ''git'', ''checkout'', ''master''] 0,
        Run [''git'', ''submodule'', ''foreach'', ''git'', ''pull'', ''--rebase'', ''origin'',
             ''master''] 0]\<rparr>)"
  by (simp add: script_defs demo_defs search_empty_version)

text \<open>The guard of line 113 away from the empty version: without a release version the
  repository update ends with the two \<^verbatim>\<open>submodule foreach\<close> commands, with a version that
  is not empty it ends after \<^verbatim>\<open>submodule update\<close>.\<close>

lemma development_runs_foreach:
  "update_repository sys a None =
     seq (print_stage ''Updating Blender Git Repository and Submodules'') (\<lambda>_.
     seq (call sys (git_pull a)) (\<lambda>_.
     seq (call sys (git_submodule_update a)) (\<lambda>_.
     seq (call sys (git_foreach_checkout a)) (\<lambda>_. call sys (git_foreach_pull a)))))"
  by (simp add: update_repository_def)

lemma named_release_skips_foreach:
  "v \<noteq> [] \<Longrightarrow>
   update_repository sys a (Some v) =
     seq (print_stage ''Updating Blender Git Repository and Submodules'') (\<lambda>_.
     seq (call sys (git_pull a)) (\<lambda>_.
     seq (call sys (git_submodule_update a)) (\<lambda>_. ok ())))"
  by (simp add: update_repository_def)

text \<open>
  C3 at the branch \<^verbatim>\<open>blender-v-release\<close>: the run announces a release and still runs the
  two \<^verbatim>\<open>submodule foreach\<close> commands that move every submodule to master.
\<close>

theorem empty_version_moves_submodules_to_master:
  "run (demo_system [''git'', ''svn''] ''linux'' (''blender-v-release'' @ [newline]) all_succeed)
       \<lparr>only_code = True, svn_command = ''svn'', git_command = ''git''\<rparr> [] =
   (Inr (),
    \<lparr>world = [],
      events =
       [Run [''git'', ''rev-parse'', ''--abbrev-ref'', ''HEAD''] 0,
        Stdout ''Using Release Blender v'',
        Stdout [], Stdout ''Updating Blender Git Repository and Submodules'', Stdout [],
        Run [''git'', ''pull'', ''--rebase''] 0,
        Run [''git'', ''submodule'', ''update'', ''--init'', ''--recursive''] 0,
        Run [''git'', ''submodule'', ''foreach'', ''git'', ''checkout'', ''master''] 0,
        Run [''git'', ''submodule'', ''foreach'', ''git'', ''pull'', ''--rebase'', ''origin'',
             ''master''] 0]\<rparr>)"
  by (simp add: script_defs demo_defs search_empty_version)

lemma svn_url_release:
  "v \<noteq> [] \<Longrightarrow>
   svn_url (Some v) =
     ''https://svn.blender.org/svnroot/bf-blender/'' @ ''tags/blender-'' @ v @ ''-release'' @ ''/lib/''"
  by (simp add: svn_url_def)

lemma svn_url_development:
  "svn_url None = ''https://svn.blender.org/svnroot/bf-blender/'' @ ''trunk'' @ ''/lib/''"
  by (simp add: svn_url_def)

section \<open>What every run keeps to\<close>

named_theorems nes

lemma nes_ok [nes]: "new_events_satisfy P (ok x)"
  by (simp add: new_events_satisfy_def ok_def)

lemma nes_halt_with [nes]: "new_events_satisfy P (halt_with h)"
  by (simp add: new_events_satisfy_def halt_with_def)

lemma nes_seq [nes]:
  assumes "new_events_satisfy P m" and "\<And>x. new_events_satisfy P (f x)"
  shows "new_events_satisfy P (seq m f)"
  unfolding new_events_satisfy_def
proof
  fix s
  from assms(1) obtain new1 where n1: "events (snd (m s)) = events s @ new1" "list_all P new1"
    unfolding new_events_satisfy_def by blast
  show "\<exists>new. events (snd (seq m f s)) = events s @ new \<and> list_all P new"
  proof (cases "fst (m s)")
    case (Inl h)
    then have "seq m f s = (Inl h, snd (m s))"
      by (cases "m s") (simp add: seq_def)
    with n1 show ?thesis by auto
  next
    case (Inr x)
    then have eq: "seq m f s = f x (snd (m s))"
      by (cases "m s") (simp add: seq_def)
    from assms(2) [of x] obtain new2
      where "events (snd (f x (snd (m s)))) = events (snd (m s)) @ new2" "list_all P new2"
      unfolding new_events_satisfy_def by blast
    with n1 eq have "events (snd (seq m f s)) = events s @ (new1 @ new2)"
      "list_all P (new1 @ new2)" by simp_all
    then show ?thesis by blast
  qed
qed

lemma nes_emit [nes]: "P e \<Longrightarrow> new_events_satisfy P (emit e)"
  by (simp add: new_events_satisfy_def emit_def)

lemma nes_print_stage [nes]: "P (Stdout []) \<Longrightarrow> P (Stdout text) \<Longrightarrow> new_events_satisfy P (print_stage text)"
  by (simp add: new_events_satisfy_def print_stage_eq)

lemma nes_call [nes]: "(\<And>rc. P (Run cmd rc)) \<Longrightarrow> new_events_satisfy P (call sys cmd)"
  by (simp add: new_events_satisfy_def call_eq)

lemma nes_check_commands [nes]:
  "(\<And>text. P (Stderr text)) \<Longrightarrow> new_events_satisfy P (check_commands sys a)"
  by (simp add: new_events_satisfy_def check_commands_eq)

lemma nes_get_branch [nes]:
  "(\<And>text. P (Stderr text)) \<Longrightarrow> (\<And>rc. P (Run (rev_parse a) rc)) \<Longrightarrow>
   new_events_satisfy P (get_branch sys a)"
  by (simp add: new_events_satisfy_def get_branch_eq Let_def split: option.splits)

lemma nes_detect_release [nes]:
  "(\<And>text. P (Stdout text)) \<Longrightarrow> new_events_satisfy P (detect_release branch)"
  by (simp add: new_events_satisfy_def detect_release_eq split: option.splits)

lemma nes_update_repository:
  assumes "\<And>text. P (Stdout text)" and "\<And>rc. P (Run (git_pull a) rc)"
    and "\<And>rc. P (Run (git_submodule_update a) rc)"
    and "\<And>rc. P (Run (git_foreach_checkout a) rc)"
    and "\<And>rc. P (Run (git_foreach_pull a) rc)"
  shows "new_events_satisfy P (update_repository sys a release_version)"
  unfolding update_repository_def
  by (intro nes assms) (auto intro!: nes assms)

lemma git_commands_not_artifact:
  "\<not> is_artifact_command (rev_parse a)" "\<not> is_artifact_command (git_pull a)"
  "\<not> is_artifact_command (git_submodule_update a)"
  "\<not> is_artifact_command (git_foreach_checkout a)"
  "\<not> is_artifact_command (git_foreach_pull a)"
  by (simp_all add: rev_parse_def git_pull_def git_submodule_update_def git_foreach_checkout_def
      git_foreach_pull_def artifact_verbs_def)

lemma only_code_no_artifact_events:
  assumes "only_code a"
  shows "new_events_satisfy (\<lambda>e. \<not> artifact_event e) (make_update sys a)"
proof -
  have "new_events_satisfy (\<lambda>e. \<not> artifact_event e) (after_detection sys a rv)" for rv
    unfolding after_detection_def using assms
    by (auto intro!: nes nes_update_repository simp: git_commands_not_artifact)
  then show ?thesis
    unfolding make_update_def
    by (auto intro!: nes simp: git_commands_not_artifact)
qed

text \<open>
  C7. In every run with \<^verbatim>\<open>--only-code\<close>, whatever the file system holds and whatever the
  branch is, no process is started whose first argument is one of the artifact
  operations checkout, cleanup, switch and update.
\<close>

theorem only_code_runs_no_artifact_command:
  "only_code a \<Longrightarrow> filter artifact_event (events (snd (run sys a w))) = []"
proof -
  assume "only_code a"
  then obtain new where "events (snd (run sys a w)) = [] @ new" "list_all (\<lambda>e. \<not> artifact_event e) new"
    using only_code_no_artifact_events [of a sys]
    unfolding new_events_satisfy_def run_def
    by (metis pstate.select_convs(2))
  then show ?thesis by (simp add: filter_empty_conv list_all_iff)
qed

named_theorems disc

lemma stops_at_failure_Inr [simp]:
  "stops_at_failure (Inr x) new \<longleftrightarrow> \<not> list_ex failed new"
  by (simp add: stops_at_failure_def)

lemma stops_at_failure_InlI:
  "exit_status h \<noteq> 0 \<Longrightarrow> \<not> list_ex failed before \<Longrightarrow>
   after = [] \<or> (failed (hd after) \<and> list_all on_stderr (tl after)) \<Longrightarrow>
   stops_at_failure (Inl h) (before @ after)"
  unfolding stops_at_failure_def by (simp only: sum.case) blast

lemma stops_at_failure_InlE:
  assumes "stops_at_failure (Inl h) new"
  obtains before after where "exit_status h \<noteq> 0" "new = before @ after"
    "\<not> list_ex failed before"
    "after = [] \<or> (failed (hd after) \<and> list_all on_stderr (tl after))"
  using assms unfolding stops_at_failure_def by (simp only: sum.case) blast

lemma disciplined_ok [disc]: "disciplined (ok x)"
  by (simp add: disciplined_def ok_def)

lemma disciplined_halt_with [disc]: "exit_status h \<noteq> 0 \<Longrightarrow> disciplined (halt_with h)"
proof -
  assume "exit_status h \<noteq> 0"
  then have "stops_at_failure (Inl h :: halt + 'b) ([] @ [])"
    by (intro stops_at_failure_InlI) simp_all
  then show ?thesis
    by (simp add: disciplined_def halt_with_def)
qed

lemma disciplined_seq [disc]:
  assumes "disciplined m" and "\<And>x. disciplined (f x)"
  shows "disciplined (seq m f)"
  unfolding disciplined_def
proof
  fix s
  from assms(1) obtain new1
    where n1: "events (snd (m s)) = events s @ new1" "stops_at_failure (fst (m s)) new1"
    unfolding disciplined_def by blast
  show "\<exists>new. events (snd (seq m f s)) = events s @ new \<and>
              stops_at_failure (fst (seq m f s)) new"
  proof (cases "fst (m s)")
    case (Inl h)
    then have eq: "seq m f s = (Inl h, snd (m s))"
      by (cases "m s") (simp add: seq_def)
    from n1(2) Inl have "stops_at_failure (Inl h :: halt + 'a) new1"
      by (simp add: stops_at_failure_def)
    then have "stops_at_failure (fst (seq m f s)) new1"
      by (simp add: eq stops_at_failure_def)
    moreover have "events (snd (seq m f s)) = events s @ new1"
      by (simp add: eq n1(1))
    ultimately show ?thesis by blast
  next
    case (Inr x)
    then have eq: "seq m f s = f x (snd (m s))"
      by (cases "m s") (simp add: seq_def)
    from n1(2) Inr have clean: "\<not> list_ex failed new1" by simp
    from assms(2) [of x] obtain new2
      where n2: "events (snd (f x (snd (m s)))) = events (snd (m s)) @ new2"
        "stops_at_failure (fst (f x (snd (m s)))) new2"
      unfolding disciplined_def by blast
    have "stops_at_failure (fst (f x (snd (m s)))) (new1 @ new2)"
    proof (cases "fst (f x (snd (m s)))")
      case (Inr y)
      with n2(2) clean show ?thesis by simp
    next
      case (Inl h)
      with n2(2) have "stops_at_failure (Inl h :: halt + 'c) new2" by simp
      then obtain before after where ba: "exit_status h \<noteq> 0" "new2 = before @ after"
        "\<not> list_ex failed before"
        "after = [] \<or> (failed (hd after) \<and> list_all on_stderr (tl after))"
        by (rule stops_at_failure_InlE)
      from clean ba(3) have "\<not> list_ex failed (new1 @ before)" by simp
      from stops_at_failure_InlI [OF ba(1) this ba(4)]
      have "stops_at_failure (Inl h :: halt + 'c) (new1 @ new2)"
        by (simp add: ba(2))
      with Inl show ?thesis by simp
    qed
    moreover have "events (snd (seq m f s)) = events s @ (new1 @ new2)"
      by (simp add: eq n1(1) n2(1))
    ultimately show ?thesis unfolding eq by blast
  qed
qed

lemma disciplined_emit [disc]: "\<not> failed e \<Longrightarrow> disciplined (emit e)"
  by (simp add: disciplined_def emit_def)

lemma disciplined_print_stage [disc]: "disciplined (print_stage text)"
  by (simp add: disciplined_def print_stage_eq)

lemma disciplined_os_listdir [disc]: "disciplined (os_listdir sys p)"
proof -
  have "stops_at_failure (Inl (Uncaught ''OSError'') :: halt + string list) ([] @ [])"
    by (intro stops_at_failure_InlI) simp_all
  then show ?thesis
    by (simp add: disciplined_def os_listdir_def split: option.splits)
qed

lemma disciplined_reads [disc]:
  "disciplined (os_path_isdir sys p)" "disciplined (os_path_exists sys p)"
  "disciplined (shutil_which sys c)"
  by (simp_all add: disciplined_def os_path_isdir_def os_path_exists_def shutil_which_def)

lemma disciplined_call [disc]: "disciplined (call sys cmd)"
  unfolding disciplined_def
proof
  fix s :: "'a pstate"
  let ?rc = "fst (fst (spawn sys (world s) cmd))"
  show "\<exists>new. events (snd (call sys cmd s)) = events s @ new \<and>
              stops_at_failure (fst (call sys cmd s)) new"
  proof (cases "?rc = 0")
    case True
    then show ?thesis by (simp add: call_eq)
  next
    case False
    then have "stops_at_failure (Inl (CommandFailed cmd ?rc) :: halt + unit) ([] @ [Run cmd ?rc])"
      by (intro stops_at_failure_InlI) simp_all
    with False show ?thesis by (simp add: call_eq)
  qed
qed

lemma disciplined_check_commands [disc]: "disciplined (check_commands sys a)"
  unfolding disciplined_def
proof
  fix s :: "'a pstate"
  have "stops_at_failure (Inl (SysExit 1) :: halt + unit) ([Stderr msg] @ [])" for msg
    by (intro stops_at_failure_InlI) simp_all
  then show "\<exists>new. events (snd (check_commands sys a s)) = events s @ new \<and>
              stops_at_failure (fst (check_commands sys a s)) new"
    by (simp add: check_commands_eq)
qed

lemma disciplined_get_branch [disc]: "disciplined (get_branch sys a)"
  unfolding disciplined_def
proof
  fix s :: "'a pstate"
  let ?rc = "fst (fst (spawn sys (world s) (rev_parse a)))"
  show "\<exists>new. events (snd (get_branch sys a s)) = events s @ new \<and>
              stops_at_failure (fst (get_branch sys a s)) new"
  proof (cases "?rc = 0")
    case True
    have "stops_at_failure (Inl (Uncaught ''UnicodeDecodeError'') :: halt + string)
            ([Run (rev_parse a) 0] @ [])"
      by (intro stops_at_failure_InlI) simp_all
    with True show ?thesis
      by (simp add: get_branch_eq Let_def split: option.splits)
  next
    case False
    then have "stops_at_failure (Inl (SysExit 1) :: halt + string)
        ([] @ [Run (rev_parse a) ?rc, Stderr (''Failed to get Blender git branch'' @ [newline])])"
      by (intro stops_at_failure_InlI) simp_all
    with False show ?thesis
      by (simp add: get_branch_eq Let_def)
  qed
qed

lemma disciplined_detect_release [disc]: "disciplined (detect_release branch)"
  by (simp add: disciplined_def detect_release_eq split: option.splits)

lemma disciplined_update_dirs [disc]: "disciplined (update_dirs sys a rv names)"
proof (induction names)
  case Nil
  show ?case by (simp add: disc)
next
  case (Cons dirname rest)
  have "disciplined (update_dir sys a rv dirname)"
    unfolding update_dir_def Let_def by (auto intro!: disc)
  with Cons show ?case by (simp add: disc)
qed

lemma disciplined_make_update: "disciplined (make_update sys a)"
proof -
  have "disciplined (checkout_libraries sys a rv)" for rv
    unfolding checkout_libraries_def Let_def by (auto intro!: disc split: option.splits)
  moreover have "disciplined (update_libraries sys a rv)" for rv
    unfolding update_libraries_def by (auto intro!: disc)
  moreover have "disciplined (update_repository sys a rv)" for rv
    unfolding update_repository_def by (auto intro!: disc)
  ultimately have "disciplined (after_detection sys a rv)" for rv
    unfolding after_detection_def by (auto intro!: disc)
  then show ?thesis
    unfolding make_update_def by (auto intro!: disc)
qed

lemma failed_position:
  assumes "xs @ x # ys = xs' @ x' # ys'" and "failed x"
    and "\<not> list_ex failed xs'" and "\<not> list_ex failed ys'"
  shows "xs = xs' \<and> ys = ys'"
  using assms
  by (auto simp: append_eq_append_conv2 append_eq_Cons_conv Cons_eq_append_conv list_ex_iff)

lemma on_stderr_not_failed: "list_all on_stderr es \<Longrightarrow> \<not> list_ex failed es"
proof (induction es)
  case Nil
  show ?case by simp
next
  case (Cons e es)
  then show ?case by (cases e) simp_all
qed

text \<open>
  C4. In every run, a process that exits with a status other than zero is the last
  process of the run: the exit code of the run is not zero, and what follows the
  failure is written to standard error only, so no further process and no stage banner.
  The exit code is zero only when the script reached its last line and every process
  exited with status zero.
\<close>

theorem failed_command_halts_run:
  "(events (snd (run sys a w)) = before @ Run cmd rc # after \<and> rc \<noteq> 0 \<longrightarrow>
      exit_code (fst (run sys a w)) \<noteq> 0 \<and> list_all on_stderr after) \<and>
   (exit_code (fst (run sys a w)) = 0 \<longrightarrow>
      fst (run sys a w) = Inr () \<and> \<not> list_ex failed (events (snd (run sys a w))))"
proof -
  let ?r = "fst (run sys a w)" and ?es = "events (snd (run sys a w))"
  from disciplined_make_update [of sys a] have inv: "stops_at_failure ?r ?es"
    unfolding disciplined_def run_def
    by (metis append_Nil pstate.select_convs(2))
  have first: "exit_code ?r \<noteq> 0 \<and> list_all on_stderr after"
    if split: "?es = before @ Run cmd rc # after" and rc: "rc \<noteq> 0"
  proof (cases ?r)
    case (Inr u)
    with inv have "\<not> list_ex failed ?es" by simp
    with split rc show ?thesis by simp
  next
    case (Inl h)
    with inv have "stops_at_failure (Inl h :: halt + unit) ?es" by simp
    then obtain clean tail where ct: "exit_status h \<noteq> 0" "?es = clean @ tail"
      "\<not> list_ex failed clean"
      "tail = [] \<or> (failed (hd tail) \<and> list_all on_stderr (tl tail))"
      by (rule stops_at_failure_InlE)
    from split rc have "list_ex failed ?es" by simp
    with ct(2,3) have "tail \<noteq> []" by auto
    with ct(4) obtain e rest where tail: "tail = e # rest" "failed e" "list_all on_stderr rest"
      by (cases tail) auto
    from split ct(2) tail(1) have "before @ Run cmd rc # after = clean @ e # rest" by simp
    moreover from rc have "failed (Run cmd rc)" by simp
    ultimately have "before = clean \<and> after = rest"
      using ct(3) on_stderr_not_failed [OF tail(3)] by (rule failed_position)
    with tail(3) ct(1) Inl show ?thesis by simp
  qed
  have second: "?r = Inr () \<and> \<not> list_ex failed ?es" if zero: "exit_code ?r = 0"
  proof (cases ?r)
    case (Inr u)
    with inv show ?thesis by simp
  next
    case (Inl h)
    with inv have "stops_at_failure (Inl h :: halt + unit) ?es" by simp
    then have "exit_status h \<noteq> 0" by (rule stops_at_failure_InlE)
    with zero Inl show ?thesis by simp
  qed
  from first second show ?thesis by blast
qed

lemma run_with_failing_switch:
  "run (demo_system [''git'', ''svn''] ''linux'' (''main'' @ [newline]) switch_fails)
       default_args linux_world =
   (Inl (CommandFailed [''svn'', ''switch'',
           ''https://svn.blender.org/svnroot/bf-blender/trunk/lib/tests'', ''../lib/tests''] 1),
    \<lparr>world = linux_world,
      events =
       [Run [''git'', ''rev-parse'', ''--abbrev-ref'', ''HEAD''] 0,
        Stdout [], Stdout ''Updating Precompiled Libraries and Tests'', Stdout [],
        Run [''svn'', ''cleanup'', ''../lib/tests''] 0,
        Run [''svn'', ''switch'',
             ''https://svn.blender.org/svnroot/bf-blender/trunk/lib/tests'',
             ''../lib/tests''] 1]\<rparr>)"
  by (simp add: script_defs demo_defs search_main switch_fails_def)

lemma run_on_linux_world:
  "run (demo_system [''git'', ''svn''] ''linux'' (''main'' @ [newline]) all_succeed)
       default_args linux_world =
   (Inr (),
    \<lparr>world = linux_world,
      events =
       [Run [''git'', ''rev-parse'', ''--abbrev-ref'', ''HEAD''] 0,
        Stdout [], Stdout ''Updating Precompiled Libraries and Tests'', Stdout [],
        Run [''svn'', ''cleanup'', ''../lib/tests''] 0,
        Run [''svn'', ''switch'',
             ''https://svn.blender.org/svnroot/bf-blender/trunk/lib/tests'',
             ''../lib/tests''] 0,
        Run [''svn'', ''update'', ''../lib/tests''] 0,
        Stdout [], Stdout ''Updating Blender Git Repository and Submodules'', Stdout [],
        Run [''git'', ''pull'', ''--rebase''] 0,
        Run [''git'', ''submodule'', ''update'', ''--init'', ''--recursive''] 0,
        Run [''git'', ''submodule'', ''foreach'', ''git'', ''checkout'', ''master''] 0,
        Run [''git'', ''submodule'', ''foreach'', ''git'', ''pull'', ''--rebase'', ''origin'',
             ''master''] 0]\<rparr>)"
  by (simp add: script_defs demo_defs search_main)

theorem failed_command_halts_run_witness:
  "exit_code (fst (run (demo_system [''git'', ''svn''] ''linux'' (''main'' @ [newline]) switch_fails)
                      default_args linux_world)) = 1 \<and>
   list_all on_stderr ([] :: event list) \<and>
   exit_code (fst (run (demo_system [''git'', ''svn''] ''linux'' (''main'' @ [newline]) all_succeed)
                      default_args linux_world)) = 0 \<and>
   fst (run (demo_system [''git'', ''svn''] ''linux'' (''main'' @ [newline]) all_succeed)
            default_args linux_world) = Inr ()"
  using failed_command_halts_run [of
      "demo_system [''git'', ''svn''] ''linux'' (''main'' @ [newline]) switch_fails"
      default_args linux_world
      "[Run [''git'', ''rev-parse'', ''--abbrev-ref'', ''HEAD''] 0,
        Stdout [], Stdout ''Updating Precompiled Libraries and Tests'', Stdout [],
        Run [''svn'', ''cleanup'', ''../lib/tests''] 0]"
      "[''svn'', ''switch'', ''https://svn.blender.org/svnroot/bf-blender/trunk/lib/tests'',
        ''../lib/tests'']" 1 "[]"]
    failed_command_halts_run [of
      "demo_system [''git'', ''svn''] ''linux'' (''main'' @ [newline]) all_succeed"
      default_args linux_world]
  unfolding run_with_failing_switch run_on_linux_world
  by simp

theorem only_code_runs_no_artifact_command_witness:
  "only_code \<lparr>only_code = True, svn_command = ''svn'', git_command = ''git''\<rparr> \<and>
   filter artifact_event
     (events (snd (run (demo_system [''git'', ''svn''] ''darwin'' (''main'' @ [newline]) all_succeed)
                       \<lparr>only_code = True, svn_command = ''svn'', git_command = ''git''\<rparr>
                       linux_world))) = []"
  using only_code_runs_no_artifact_command [of
      "\<lparr>only_code = True, svn_command = ''svn'', git_command = ''git''\<rparr>"
      "demo_system [''git'', ''svn''] ''darwin'' (''main'' @ [newline]) all_succeed" linux_world]
  by simp

section \<open>The library update\<close>

lemma seq_Inr:
  "seq m f s = (Inr y, s') \<longleftrightarrow> (\<exists>x s1. m s = (Inr x, s1) \<and> f x s1 = (Inr y, s'))"
  by (cases "m s") (auto simp: seq_def split: sum.splits)

lemma call_Inr:
  "call sys cmd s = (Inr u, s') \<longleftrightarrow>
     fst (fst (spawn sys (world s) cmd)) = 0 \<and>
     s' = s\<lparr>world := snd (spawn sys (world s) cmd), events := events s @ [Run cmd 0]\<rparr>"
  by (auto simp: call_eq)

lemma update_dir_skips:
  "\<not> entry_is_updated sys (world s) dirname \<Longrightarrow>
   update_dir sys a rv dirname s = (Inr (), s)"
  by (auto simp: entry_is_updated_def update_dir_def Let_def seq_def os_path_isdir_def
      os_path_exists_def ok_def)

lemma update_dir_runs_three:
  assumes "entry_is_updated sys (world s) dirname"
    and "update_dir sys a rv dirname s = (Inr (), s')"
  shows "events s' = events s @ map (\<lambda>cmd. Run cmd 0) (three_operations sys a rv dirname) \<and>
         world s' = world_after sys (world s) (three_operations sys a rv dirname)"
proof -
  let ?p = "path_join sys (lib_dirpath sys) dirname"
  from assms(1) have
    "update_dir sys a rv dirname s =
       seq (call sys [svn_command a, ''cleanup'', ?p]) (\<lambda>_.
       seq (call sys [svn_command a, ''switch'', svn_url rv @ dirname, ?p]) (\<lambda>_.
       call sys [svn_command a, ''update'', ?p])) s"
    by (auto simp: entry_is_updated_def update_dir_def Let_def seq_def os_path_isdir_def
        os_path_exists_def)
  with assms(2) show ?thesis
    by (auto simp: seq_Inr call_Inr three_operations_def world_after_def)
qed

lemma update_dirs_runs_expected:
  "update_dirs sys a rv names s = (Inr (), s') \<Longrightarrow>
   events s' = events s @ map (\<lambda>cmd. Run cmd 0) (expected_operations sys a rv (world s) names)"
proof (induction names arbitrary: s)
  case Nil
  then show ?case by (simp add: ok_def)
next
  case (Cons dirname rest)
  from Cons.prems obtain s1 where d: "update_dir sys a rv dirname s = (Inr (), s1)"
    and r: "update_dirs sys a rv rest s1 = (Inr (), s')"
    by (auto simp: seq_Inr)
  show ?case
  proof (cases "entry_is_updated sys (world s) dirname")
    case True
    from update_dir_runs_three [OF True d] Cons.IH [OF r] True show ?thesis by simp
  next
    case False
    with d have "s1 = s" by (simp add: update_dir_skips)
    with Cons.IH [OF r] False show ?thesis by simp
  qed
qed

text \<open>
  C2, as the code has it. When the libraries root is a directory with the listing
  \<open>names\<close> and the library update runs to its end, its processes are, after the banner,
  exactly the expected operations, each with exit status zero: for every entry, in the
  order of the listing, that is not named \<^verbatim>\<open>.svn\<close>, is a directory and has an entry \<^verbatim>\<open>.svn\<close>
  (of any kind) in it or beside it in the root, the cleanup of the directory, the switch
  to the artifact URL followed by the entry name, and the update; nothing for the
  others.
\<close>

theorem qualifying_entries_get_three_operations:
  assumes "update_libraries sys a rv s = (Inr (), s')"
    and "path_kind sys (world s) (lib_dirpath sys) = Some Directory"
    and "listdir sys (world s) (lib_dirpath sys) = Some names"
  shows "events s' =
           events s @
           [Stdout [], Stdout ''Updating Precompiled Libraries and Tests'', Stdout []] @
           map (\<lambda>cmd. Run cmd 0) (expected_operations sys a rv (world s) names)"
proof -
  let ?s1 = "s\<lparr>events := events s @
      [Stdout [], Stdout ''Updating Precompiled Libraries and Tests'', Stdout []]\<rparr>"
  from assms have "update_dirs sys a rv names ?s1 = (Inr (), s')"
    by (simp add: update_libraries_def seq_def print_stage_eq os_path_isdir_def os_listdir_def)
  from update_dirs_runs_expected [OF this] show ?thesis by simp
qed

theorem qualifying_entries_get_three_operations_witness:
  "expected_operations (demo_system [''git'', ''svn''] ''linux'' [] all_succeed) default_args None
     linux_world [''tests'', ''notes'', ''README''] =
     [[''svn'', ''cleanup'', ''../lib/tests''],
      [''svn'', ''switch'', ''https://svn.blender.org/svnroot/bf-blender/trunk/lib/tests'',
       ''../lib/tests''],
      [''svn'', ''update'', ''../lib/tests'']] \<and>
   events (snd (update_libraries (demo_system [''git'', ''svn''] ''linux'' [] all_succeed)
                  default_args None \<lparr>world = linux_world, events = []\<rparr>)) =
     [Stdout [], Stdout ''Updating Precompiled Libraries and Tests'', Stdout [],
      Run [''svn'', ''cleanup'', ''../lib/tests''] 0,
      Run [''svn'', ''switch'', ''https://svn.blender.org/svnroot/bf-blender/trunk/lib/tests'',
           ''../lib/tests''] 0,
      Run [''svn'', ''update'', ''../lib/tests''] 0]"
proof -
  let ?sys = "demo_system [''git'', ''svn''] ''linux'' [] all_succeed"
  let ?s = "\<lparr>world = linux_world, events = []\<rparr>"
  have e: "expected_operations ?sys default_args None linux_world [''tests'', ''notes'', ''README''] =
     [[''svn'', ''cleanup'', ''../lib/tests''],
      [''svn'', ''switch'', ''https://svn.blender.org/svnroot/bf-blender/trunk/lib/tests'',
       ''../lib/tests''],
      [''svn'', ''update'', ''../lib/tests'']]"
    by (simp add: entry_is_updated_def three_operations_def world_after_def lib_dirpath_def
        svn_url_def demo_defs)
  have r: "update_libraries ?sys default_args None ?s =
      (Inr (), snd (update_libraries ?sys default_args None ?s))"
    by (simp add: script_defs demo_defs)
  have k: "path_kind ?sys (world ?s) (lib_dirpath ?sys) = Some Directory"
    by (simp add: lib_dirpath_def demo_defs)
  have l: "listdir ?sys (world ?s) (lib_dirpath ?sys) = Some [''tests'', ''notes'', ''README'']"
    by (simp add: lib_dirpath_def demo_defs)
  from qualifying_entries_get_three_operations [OF r k l] e show ?thesis by simp
qed

text \<open>
  C2 as stated fails: \<^verbatim>\<open>../lib/foo\<close> holds a regular file named \<^verbatim>\<open>.svn\<close>, not a metadata
  directory, and the root has no \<^verbatim>\<open>.svn\<close> at all; the three operations run on it all the
  same, since line 102 asks whether the path exists.
\<close>

theorem svn_file_counts_as_metadata_counterexample:
  "map_of svn_file_world ''../lib/foo/.svn'' = Some Other_File \<and>
   map_of svn_file_world ''../lib/.svn'' = None \<and>
   run (demo_system [''git'', ''svn''] ''linux'' (''main'' @ [newline]) all_succeed)
       default_args svn_file_world =
   (Inr (),
    \<lparr>world = svn_file_world,
      events =
       [Run [''git'', ''rev-parse'', ''--abbrev-ref'', ''HEAD''] 0,
        Stdout [], Stdout ''Updating Precompiled Libraries and Tests'', Stdout [],
        Run [''svn'', ''cleanup'', ''../lib/foo''] 0,
        Run [''svn'', ''switch'',
             ''https://svn.blender.org/svnroot/bf-blender/trunk/lib/foo'',
             ''../lib/foo''] 0,
        Run [''svn'', ''update'', ''../lib/foo''] 0,
        Stdout [], Stdout ''Updating Blender Git Repository and Submodules'', Stdout [],
        Run [''git'', ''pull'', ''--rebase''] 0,
        Run [''git'', ''submodule'', ''update'', ''--init'', ''--recursive''] 0,
        Run [''git'', ''submodule'', ''foreach'', ''git'', ''checkout'', ''master''] 0,
        Run [''git'', ''submodule'', ''foreach'', ''git'', ''pull'', ''--rebase'', ''origin'',
             ''master''] 0]\<rparr>)"
  by (simp add: script_defs demo_defs search_main svn_file_world_def)

text \<open>
  C9, as the code has it. When the library update is reached (libraries are not skipped and the platform
  checkout before it went through) and the libraries root does not exist, the update
  prints its banner and returns without error, no entry is listed and no process is
  started; the run goes on with the repository update from that very state.
\<close>

theorem missing_libraries_root_is_skipped:
  assumes "\<not> only_code a"
    and "checkout_libraries sys a rv s = (Inr (), s1)"
    and "path_kind sys (world s1) (lib_dirpath sys) = None"
  shows "update_libraries sys a rv s1 =
           (Inr (), s1\<lparr>events := events s1 @
              [Stdout [], Stdout ''Updating Precompiled Libraries and Tests'', Stdout []]\<rparr>) \<and>
         after_detection sys a rv s =
           update_repository sys a rv
             (s1\<lparr>events := events s1 @
                [Stdout [], Stdout ''Updating Precompiled Libraries and Tests'', Stdout []]\<rparr>)"
proof -
  from assms(3) have u: "update_libraries sys a rv s1 =
           (Inr (), s1\<lparr>events := events s1 @
              [Stdout [], Stdout ''Updating Precompiled Libraries and Tests'', Stdout []]\<rparr>)"
    by (simp add: update_libraries_def seq_def print_stage_eq os_path_isdir_def ok_def)
  with assms(1,2) show ?thesis
    by (simp add: after_detection_def seq_def)
qed

theorem missing_libraries_root_is_skipped_witness:
  "update_libraries (demo_system [''git'', ''svn''] ''linux'' [] all_succeed) default_args None
     \<lparr>world = [], events = []\<rparr> =
     (Inr (), \<lparr>world = [],
        events = [Stdout [], Stdout ''Updating Precompiled Libraries and Tests'', Stdout []]\<rparr>) \<and>
   after_detection (demo_system [''git'', ''svn''] ''linux'' [] all_succeed) default_args None
     \<lparr>world = [], events = []\<rparr> =
   update_repository (demo_system [''git'', ''svn''] ''linux'' [] all_succeed) default_args None
     \<lparr>world = [],
       events = [Stdout [], Stdout ''Updating Precompiled Libraries and Tests'', Stdout []]\<rparr>"
proof -
  let ?sys = "demo_system [''git'', ''svn''] ''linux'' [] all_succeed"
  let ?s = "\<lparr>world = ([] :: demo_world), events = []\<rparr>"
  have a: "\<not> only_code default_args" by (simp add: default_args_def)
  have c: "checkout_libraries ?sys default_args None ?s = (Inr (), ?s)"
    by (simp add: checkout_libraries_def lib_platform_def demo_system_def ok_def)
  have k: "path_kind ?sys (world ?s) (lib_dirpath ?sys) = None"
    by (simp add: demo_system_def)
  from missing_libraries_root_is_skipped [OF a c k] show ?thesis by simp
qed

text \<open>
  C9 as stated fails on a platform with precompiled libraries, where the checkout of
  lines 80 to 87 comes before the enumeration. The libraries root is missing when the
  synchronizer starts: when the checkout fails the run ends there and never reaches the
  repository update; when the checkout succeeds and creates the root, the enumeration is
  not skipped.
\<close>

theorem checkout_comes_before_enumeration_counterexample:
  "map_of ([] :: demo_world) ''../lib'' = None \<and>
   run (demo_system [''git'', ''svn''] ''darwin'' (''main'' @ [newline]) checkout_fails)
       default_args [] =
   (Inl (CommandFailed [''svn'', ''checkout'',
           ''https://svn.blender.org/svnroot/bf-blender/trunk/lib/darwin'', ''../lib/darwin''] 1),
    \<lparr>world = [],
      events =
       [Run [''git'', ''rev-parse'', ''--abbrev-ref'', ''HEAD''] 0,
        Stdout [], Stdout ''Checking out Precompiled Libraries'', Stdout [],
        Run [''svn'', ''checkout'',
             ''https://svn.blender.org/svnroot/bf-blender/trunk/lib/darwin'',
             ''../lib/darwin''] 1]\<rparr>) \<and>
   run (creating_the_root
          (demo_system [''git'', ''svn''] ''darwin'' (''main'' @ [newline]) all_succeed))
       default_args [] =
   (Inr (),
    \<lparr>world = [(''../lib/darwin'', Directory), (''../lib/darwin/.svn'', Directory),
              (''../lib'', Directory)],
      events =
       [Run [''git'', ''rev-parse'', ''--abbrev-ref'', ''HEAD''] 0,
        Stdout [], Stdout ''Checking out Precompiled Libraries'', Stdout [],
        Run [''svn'', ''checkout'',
             ''https://svn.blender.org/svnroot/bf-blender/trunk/lib/darwin'',
             ''../lib/darwin''] 0,
        Stdout [], Stdout ''Updating Precompiled Libraries and Tests'', Stdout [],
        Run [''svn'', ''cleanup'', ''../lib/darwin''] 0,
        Run [''svn'', ''switch'',
             ''https://svn.blender.org/svnroot/bf-blender/trunk/lib/darwin'',
             ''../lib/darwin''] 0,
        Run [''svn'', ''update'', ''../lib/darwin''] 0,
        Stdout [], Stdout ''Updating Blender Git Repository and Submodules'', Stdout [],
        Run [''git'', ''pull'', ''--rebase''] 0,
        Run [''git'', ''submodule'', ''update'', ''--init'', ''--recursive''] 0,
        Run [''git'', ''submodule'', ''foreach'', ''git'', ''checkout'', ''master''] 0,
        Run [''git'', ''submodule'', ''foreach'', ''git'', ''pull'', ''--rebase'', ''origin'',
             ''master''] 0]\<rparr>)"
  by (simp add: script_defs demo_defs search_main checkout_fails_def creating_the_root_def)

section \<open>The empty version\<close>

lemma nes_reads [nes]:
  "new_events_satisfy P (os_path_isdir sys p)" "new_events_satisfy P (os_path_exists sys p)"
  "new_events_satisfy P (os_listdir sys p)"
  by (simp_all add: new_events_satisfy_def os_path_isdir_def os_path_exists_def os_listdir_def
      split: option.splits)

lemma svn_url_empty_is_trunk: "svn_url (Some []) = trunk_lib_url"
  by (simp add: svn_url_def trunk_lib_url_def)

lemma uses_trunk_artifact_commands:
  "uses_trunk (Run [client, ''checkout'', trunk_lib_url @ name, path] rc)"
  "uses_trunk (Run [client, ''cleanup'', path] rc)"
  "uses_trunk (Run [client, ''switch'', trunk_lib_url @ name, path] rc)"
  "uses_trunk (Run [client, ''update'', path] rc)"
  by simp_all

lemma nes_update_dirs_trunk:
  "new_events_satisfy uses_trunk (update_dirs sys a (Some []) names)"
proof (induction names)
  case Nil
  show ?case by (simp add: nes)
next
  case (Cons dirname rest)
  have "new_events_satisfy uses_trunk (update_dir sys a (Some []) dirname)"
    unfolding update_dir_def Let_def svn_url_empty_is_trunk
    by (auto intro!: nes uses_trunk_artifact_commands)
  with Cons show ?case by (simp add: nes)
qed

lemma nes_libraries_trunk:
  "new_events_satisfy uses_trunk
     (seq (checkout_libraries sys a (Some [])) (\<lambda>_. update_libraries sys a (Some [])))"
proof -
  have "new_events_satisfy uses_trunk (checkout_libraries sys a (Some []))"
    unfolding checkout_libraries_def Let_def svn_url_empty_is_trunk
    by (auto intro!: nes uses_trunk_artifact_commands split: option.splits)
  moreover have "new_events_satisfy uses_trunk (update_libraries sys a (Some []))"
    unfolding update_libraries_def
    by (auto intro!: nes nes_update_dirs_trunk)
  ultimately show ?thesis by (auto intro!: nes)
qed

lemma update_repository_without_version:
  assumes "update_repository sys a rv s = (Inr (), s')" and "\<not> truthy rv"
  shows "events s' = events s @
           [Stdout [], Stdout ''Updating Blender Git Repository and Submodules'', Stdout []] @
           map (\<lambda>cmd. Run cmd 0)
             [git_pull a, git_submodule_update a, git_foreach_checkout a, git_foreach_pull a]"
  using assms
  by (auto simp: update_repository_def seq_Inr call_Inr print_stage_eq)

text \<open>
  C10, as the code has it. When the branch query prints \<^verbatim>\<open>blender-v-release\<close> (up to the
  white space around it) and the run reaches its end, the run is: the branch query, the
  line \<^verbatim>\<open>Using Release Blender v\<close>, the library stage, in which every checkout and every
  switch takes its URL under \<^verbatim>\<open>trunk/lib/\<close>, the banner of the repository update, and the
  four git commands of a DEVELOPMENT checkout, each with exit status zero: pull with
  rebase, recursive submodule update, \<^verbatim>\<open>submodule foreach git checkout master\<close> (a plain
  checkout) and \<^verbatim>\<open>submodule foreach git pull --rebase origin master\<close>.
\<close>

theorem empty_version_runs_as_development:
  assumes finished: "run sys a w = (Inr (), s')"
    and branch: "strip (snd (fst (spawn sys w (rev_parse a)))) = ''blender-v-release''"
  shows "\<exists>libraries.
           events s' =
             [Run (rev_parse a) 0, Stdout ''Using Release Blender v''] @ libraries @
             [Stdout [], Stdout ''Updating Blender Git Repository and Submodules'', Stdout []] @
             map (\<lambda>cmd. Run cmd 0)
               [[git_command a, ''pull'', ''--rebase''],
                [git_command a, ''submodule'', ''update'', ''--init'', ''--recursive''],
                [git_command a, ''submodule'', ''foreach'', ''git'', ''checkout'', ''master''],
                [git_command a, ''submodule'', ''foreach'', ''git'', ''pull'', ''--rebase'',
                 ''origin'', ''master'']] \<and>
           list_all uses_trunk libraries"
proof -
  let ?s0 = "\<lparr>world = w, events = []\<rparr>"
  from finished obtain s1 b s2 rv s3 where c: "check_commands sys a ?s0 = (Inr (), s1)"
    and g: "get_branch sys a s1 = (Inr b, s2)"
    and d: "detect_release b s2 = (Inr rv, s3)"
    and r: "after_detection sys a rv s3 = (Inr (), s')"
    unfolding run_def make_update_def by (auto simp: seq_Inr)
  from c have s1: "s1 = ?s0"
    by (simp add: check_commands_eq split: if_splits)
  from g branch have b: "b = ''blender-v-release''"
    and s2: "events s2 = [Run (rev_parse a) 0]"
    unfolding s1
    by (auto simp: get_branch_eq Let_def decode_utf8_def split: if_splits option.splits)
  from d have rv: "rv = Some []"
    and s3: "events s3 = [Run (rev_parse a) 0, Stdout ''Using Release Blender v'']"
    by (auto simp: detect_release_eq b search_empty_version s2)
  from r obtain s4 where l: "(if \<not> only_code a then
            seq (checkout_libraries sys a (Some [])) (\<lambda>_. update_libraries sys a (Some []))
          else ok ()) s3 = (Inr (), s4)"
    and u: "update_repository sys a (Some []) s4 = (Inr (), s')"
    unfolding after_detection_def rv by (auto simp: seq_Inr)
  have "new_events_satisfy uses_trunk (if \<not> only_code a then
            seq (checkout_libraries sys a (Some [])) (\<lambda>_. update_libraries sys a (Some []))
          else ok ())"
    by (simp add: nes_libraries_trunk nes)
  then obtain libraries where "events (snd ((if \<not> only_code a then
            seq (checkout_libraries sys a (Some [])) (\<lambda>_. update_libraries sys a (Some []))
          else ok ()) s3)) = events s3 @ libraries" and t: "list_all uses_trunk libraries"
    unfolding new_events_satisfy_def by blast
  with l have s4: "events s4 = events s3 @ libraries" by simp
  from update_repository_without_version [OF u] have
    "events s' = events s4 @
           [Stdout [], Stdout ''Updating Blender Git Repository and Submodules'', Stdout []] @
           map (\<lambda>cmd. Run cmd 0)
             [git_pull a, git_submodule_update a, git_foreach_checkout a, git_foreach_pull a]"
    by simp
  then have "events s' =
             [Run (rev_parse a) 0, Stdout ''Using Release Blender v''] @ libraries @
             [Stdout [], Stdout ''Updating Blender Git Repository and Submodules'', Stdout []] @
             map (\<lambda>cmd. Run cmd 0)
               [[git_command a, ''pull'', ''--rebase''],
                [git_command a, ''submodule'', ''update'', ''--init'', ''--recursive''],
                [git_command a, ''submodule'', ''foreach'', ''git'', ''checkout'', ''master''],
                [git_command a, ''submodule'', ''foreach'', ''git'', ''pull'', ''--rebase'',
                 ''origin'', ''master'']]"
    by (simp add: s4 s3 git_pull_def git_submodule_update_def git_foreach_checkout_def
        git_foreach_pull_def)
  with t show ?thesis by blast
qed

lemma empty_version_run_on_darwin:
  "run (demo_system [''git'', ''svn''] ''darwin'' (''blender-v-release'' @ [newline]) all_succeed)
       default_args linux_world =
   (Inr (),
    \<lparr>world = [(''../lib/darwin'', Directory), (''../lib/darwin/.svn'', Directory)] @ linux_world,
      events =
       [Run [''git'', ''rev-parse'', ''--abbrev-ref'', ''HEAD''] 0,
        Stdout ''Using Release Blender v'']
       @
       [Stdout [], Stdout ''Checking out Precompiled Libraries'', Stdout [],
        Run [''svn'', ''checkout'',
             ''https://svn.blender.org/svnroot/bf-blender/trunk/lib/darwin'',
             ''../lib/darwin''] 0,
        Stdout [], Stdout ''Updating Precompiled Libraries and Tests'', Stdout [],
        Run [''svn'', ''cleanup'', ''../lib/darwin''] 0,
        Run [''svn'', ''switch'',
             ''https://svn.blender.org/svnroot/bf-blender/trunk/lib/darwin'',
             ''../lib/darwin''] 0,
        Run [''svn'', ''update'', ''../lib/darwin''] 0,
        Run [''svn'', ''cleanup'', ''../lib/tests''] 0,
        Run [''svn'', ''switch'',
             ''https://svn.blender.org/svnroot/bf-blender/trunk/lib/tests'',
             ''../lib/tests''] 0,
        Run [''svn'', ''update'', ''../lib/tests''] 0]
       @
       [Stdout [], Stdout ''Updating Blender Git Repository and Submodules'', Stdout []] @
       map (\<lambda>cmd. Run cmd 0)
         [[''git'', ''pull'', ''--rebase''],
          [''git'', ''submodule'', ''update'', ''--init'', ''--recursive''],
          [''git'', ''submodule'', ''foreach'', ''git'', ''checkout'', ''master''],
          [''git'', ''submodule'', ''foreach'', ''git'', ''pull'', ''--rebase'', ''origin'',
           ''master'']]\<rparr>)"
  by (simp add: script_defs demo_defs search_empty_version)

theorem empty_version_runs_as_development_witness:
  "\<exists>libraries.
     events (snd (run (demo_system [''git'', ''svn''] ''darwin''
                         (''blender-v-release'' @ [newline]) all_succeed)
                      default_args linux_world)) =
       [Run [''git'', ''rev-parse'', ''--abbrev-ref'', ''HEAD''] 0,
        Stdout ''Using Release Blender v''] @ libraries @
       [Stdout [], Stdout ''Updating Blender Git Repository and Submodules'', Stdout []] @
       map (\<lambda>cmd. Run cmd 0)
         [[''git'', ''pull'', ''--rebase''],
          [''git'', ''submodule'', ''update'', ''--init'', ''--recursive''],
          [''git'', ''submodule'', ''foreach'', ''git'', ''checkout'', ''master''],
          [''git'', ''submodule'', ''foreach'', ''git'', ''pull'', ''--rebase'', ''origin'',
           ''master'']] \<and>
     list_all uses_trunk libraries"
proof -
  let ?sys = "demo_system [''git'', ''svn''] ''darwin'' (''blender-v-release'' @ [newline])
                all_succeed"
  have r: "run ?sys default_args linux_world = (Inr (), snd (run ?sys default_args linux_world))"
    unfolding empty_version_run_on_darwin by simp
  have b: "strip (snd (fst (spawn ?sys linux_world (rev_parse default_args)))) =
             ''blender-v-release''"
    by (simp add: demo_defs rev_parse_def strip_def is_space_def)
  from empty_version_runs_as_development [OF r b] show ?thesis
    by (simp add: rev_parse_def default_args_def)
qed

text \<open>
  C10 as stated fails in one word: the checkout that runs on the branch
  \<^verbatim>\<open>blender-v-release\<close> is not a forced one, no command of the run carries a force option.
\<close>

theorem empty_version_checkout_is_not_forced_counterexample:
  "run (demo_system [''git'', ''svn''] ''linux'' (''blender-v-release'' @ [newline]) all_succeed)
       default_args [] =
   (Inr (),
    \<lparr>world = [],
      events =
       [Run [''git'', ''rev-parse'', ''--abbrev-ref'', ''HEAD''] 0,
        Stdout ''Using Release Blender v'',
        Stdout [], Stdout ''Updating Precompiled Libraries and Tests'', Stdout [],
        Stdout [], Stdout ''Updating Blender Git Repository and Submodules'', Stdout [],
        Run [''git'', ''pull'', ''--rebase''] 0,
        Run [''git'', ''submodule'', ''update'', ''--init'', ''--recursive''] 0,
        Run [''git'', ''submodule'', ''foreach'', ''git'', ''checkout'', ''master''] 0,
        Run [''git'', ''submodule'', ''foreach'', ''git'', ''pull'', ''--rebase'', ''origin'',
             ''master''] 0]\<rparr>) \<and>
   filter forces
     (events (snd (run (demo_system [''git'', ''svn''] ''linux''
                          (''blender-v-release'' @ [newline]) all_succeed)
                       default_args []))) = []"
  by (simp add: script_defs demo_defs search_empty_version)

end
